theory Spec2Isabelle
  imports Main
begin

section \<open>Python string primitives\<close>

text \<open>
  Python strings are sequences of code points; here a string is a \<open>char list\<close> and a
  character is a code point below 256 (Latin-1), read with \<open>of_char\<close>. The character
  classes below are those of Python's \<open>str\<close> methods and of the \<open>re\<close> module on that range.
\<close>

definition code :: "char \<Rightarrow> nat" where
  "code c = of_char c"

text \<open>The class \<open>\d\<close> of \<open>re\<close> (Unicode category Nd): below 256 the ASCII digits only.\<close>

definition isdigit :: "char \<Rightarrow> bool" where
  "isdigit c = (48 \<le> code c \<and> code c \<le> 57)"

text \<open>\<open>str.isspace\<close> on one character: TAB..CR, FS..US, space, NEL, NBSP.\<close>

definition isspace :: "char \<Rightarrow> bool" where
  "isspace c = ((9 \<le> code c \<and> code c \<le> 13) \<or> (28 \<le> code c \<and> code c \<le> 32)
                 \<or> code c = 133 \<or> code c = 160)"

text \<open>
  \<open>str.isalnum\<close> on one character: ASCII letters and digits, the Latin-1 letters
  (feminine/masculine ordinal, micro sign, 0xC0..0xFF without the two operators) and the
  Latin-1 numerics (superscripts 1, 2, 3 and the three vulgar fractions).
\<close>

definition isalnum :: "char \<Rightarrow> bool" where
  "isalnum c = ((48 \<le> code c \<and> code c \<le> 57) \<or> (65 \<le> code c \<and> code c \<le> 90)
                 \<or> (97 \<le> code c \<and> code c \<le> 122)
                 \<or> code c = 170 \<or> code c = 181 \<or> code c = 186
                 \<or> code c = 178 \<or> code c = 179 \<or> code c = 185
                 \<or> (188 \<le> code c \<and> code c \<le> 190)
                 \<or> (192 \<le> code c \<and> code c \<noteq> 215 \<and> code c \<noteq> 247))"

text \<open>\<open>s.isalnum()\<close> and \<open>s.isspace()\<close> on a string: non-empty and every character in the class.\<close>

definition str_isalnum :: "string \<Rightarrow> bool" where
  "str_isalnum s = (s \<noteq> [] \<and> list_all isalnum s)"

definition str_isspace :: "string \<Rightarrow> bool" where
  "str_isspace s = (s \<noteq> [] \<and> list_all isspace s)"

text \<open>\<open>s.strip()\<close>: leading and trailing whitespace removed.\<close>

definition py_strip :: "string \<Rightarrow> string" where
  "py_strip s = rev (dropWhile isspace (rev (dropWhile isspace s)))"

text \<open>\<open>s.lower()\<close>: ASCII capitals and the Latin-1 capitals move up by 32.\<close>

definition lower_char :: "char \<Rightarrow> char" where
  "lower_char c = (if (65 \<le> code c \<and> code c \<le> 90) \<or> (192 \<le> code c \<and> code c \<le> 222 \<and> code c \<noteq> 215)
                   then char_of (code c + 32) else c)"

definition py_lower :: "string \<Rightarrow> string" where
  "py_lower s = map lower_char s"

text \<open>\<open>s.startswith(p)\<close>.\<close>

definition startswith :: "string \<Rightarrow> string \<Rightarrow> bool" where
  "startswith s p = (take (length p) s = p)"

text \<open>
  \<open>int(g)\<close> on a group of decimal digits, and the formats \<open>{n:04d}\<close>, \<open>{n:02d}\<close>:
  the decimal numeral, padded with zeros up to the width, the sign first and counted in
  the width.
\<close>

definition dval :: "char \<Rightarrow> nat" where
  "dval c = code c - 48"

definition pnat :: "string \<Rightarrow> nat" where
  "pnat s = foldl (\<lambda>a c. 10 * a + dval c) 0 s"

definition py_int :: "string \<Rightarrow> int" where
  "py_int s = int (pnat s)"

definition digit_chr :: "nat \<Rightarrow> char" where
  "digit_chr k = char_of (48 + k)"

fun digits_of :: "nat \<Rightarrow> string" where
  "digits_of n = (if n < 10 then [digit_chr n] else digits_of (n div 10) @ [digit_chr (n mod 10)])"

declare digits_of.simps [simp del]

definition zfill :: "nat \<Rightarrow> string \<Rightarrow> string" where
  "zfill w s = replicate (w - length s) (CHR ''0'') @ s"

definition fmt_d :: "nat \<Rightarrow> int \<Rightarrow> string" where
  "fmt_d w n = (if n < 0 then ''-'' @ zfill (w - 1) (digits_of (nat (- n))) else zfill w (digits_of (nat n)))"

text \<open>\<open>s.ljust(w, "0")\<close> and the slice \<open>s[:k]\<close>.\<close>

definition ljust0 :: "nat \<Rightarrow> string \<Rightarrow> string" where
  "ljust0 w s = s @ replicate (w - length s) (CHR ''0'')"

section \<open>Errors (exceptions.py)\<close>

text \<open>
  The reason of an \<open>InvalidTimestampError\<close> is the text of the \<open>ValueError\<close> it wraps;
  the reasons are kept apart by constructor, with the offending number where the source
  prints it. \<open>CalendarRange\<close> stands for the \<open>ValueError\<close> of \<open>datetime(year, month, day)\<close>,
  \<open>IntLiteral\<close> for that of \<open>int\<close> on a string that is no integer literal. The last
  constructor of \<open>error\<close> is the \<open>ValueError\<close> of \<open>str.split\<close> on an empty separator, which is
  no \<open>HL7ParseError\<close>.
\<close>

datatype ts_reason =
    NoKnownFormat
  | MonthRange int
  | DayRange int
  | HourRange int
  | MinuteRange int
  | SecondRange int
  | CalendarRange
  | IntLiteral
  | UnhandledFormat

datatype error =
    InvalidMessageTypeError string string
  | MissingSegmentError string
  | MalformedSegmentError string string
  | InvalidTimestampError string ts_reason
  | ValueError

section \<open>Timestamps (timestamps.py)\<close>

text \<open>
  The ten regular expressions of \<open>HL7_TIMESTAMP_PATTERNS\<close> are sequences of four kinds of
  items between \<open>^\<close> and \<open>$\<close>: a group of exactly n digits \<open>(\d{n})\<close>, the literal point,
  the group \<open>(\d+)\<close>, and the group \<open>([+-]\d{4})\<close>. In every pattern \<open>(\d+)\<close> is followed by the
  end or by a sign, neither of which a digit matches, so the group is the longest run of
  digits and no backtracking changes a match. \<open>$\<close> matches at the end of the string and
  before a final newline.
\<close>

datatype tok = D nat | Dot | Frac | Tz

fun match_toks :: "tok list \<Rightarrow> string \<Rightarrow> string list option" where
  "match_toks [] s = (if s = [] \<or> s = [CHR 0x0A] then Some [] else None)"
| "match_toks (D n # ts) s =
     (if n \<le> length s \<and> list_all isdigit (take n s)
      then map_option ((#) (take n s)) (match_toks ts (drop n s)) else None)"
| "match_toks (Dot # ts) s =
     (case s of [] \<Rightarrow> None | c # r \<Rightarrow> if c = CHR ''.'' then match_toks ts r else None)"
| "match_toks (Frac # ts) s =
     (if takeWhile isdigit s = [] then None
      else map_option ((#) (takeWhile isdigit s)) (match_toks ts (dropWhile isdigit s)))"
| "match_toks (Tz # ts) s =
     (case s of [] \<Rightarrow> None
      | c # r \<Rightarrow> if (c = CHR ''+'' \<or> c = CHR ''-'') \<and> 4 \<le> length r \<and> list_all isdigit (take 4 r)
                 then map_option ((#) (c # take 4 r)) (match_toks ts (drop 4 r)) else None)"

datatype format_type =
    full_with_tz_fraction | full_with_tz | minutes_with_tz | full_with_fraction
  | full | minutes | hours | date | month | year

definition HL7_TIMESTAMP_PATTERNS :: "(tok list \<times> format_type) list" where
  "HL7_TIMESTAMP_PATTERNS =
    [([D 4, D 2, D 2, D 2, D 2, D 2, Dot, Frac, Tz], full_with_tz_fraction),
     ([D 4, D 2, D 2, D 2, D 2, D 2, Tz], full_with_tz),
     ([D 4, D 2, D 2, D 2, D 2, Tz], minutes_with_tz),
     ([D 4, D 2, D 2, D 2, D 2, D 2, Dot, Frac], full_with_fraction),
     ([D 4, D 2, D 2, D 2, D 2, D 2], full),
     ([D 4, D 2, D 2, D 2, D 2], minutes),
     ([D 4, D 2, D 2, D 2], hours),
     ([D 4, D 2, D 2], date),
     ([D 4, D 2], month),
     ([D 4], year)]"

text \<open>
  \<open>datetime(year, month, day)\<close> of the standard library raises \<open>ValueError\<close> unless the year
  is in 1..9999, the month in 1..12 and the day in 1..days of that month (Gregorian leap
  years).
\<close>

definition is_leap :: "int \<Rightarrow> bool" where
  "is_leap y = (y mod 4 = 0 \<and> (y mod 100 \<noteq> 0 \<or> y mod 400 = 0))"

definition days_in_month :: "int \<Rightarrow> int \<Rightarrow> int" where
  "days_in_month y m =
     (if m = 2 then (if is_leap y then 29 else 28)
      else if m = 4 \<or> m = 6 \<or> m = 9 \<or> m = 11 then 30 else 31)"

definition datetime_ok :: "int \<Rightarrow> int \<Rightarrow> int \<Rightarrow> bool" where
  "datetime_ok y m d = (1 \<le> y \<and> y \<le> 9999 \<and> 1 \<le> m \<and> m \<le> 12 \<and> 1 \<le> d \<and> d \<le> days_in_month y m)"

text \<open>\<open>_validate_date\<close> and \<open>_validate_time\<close>: \<open>Inl\<close> is the \<open>ValueError\<close> raised.\<close>

definition validate_date :: "int \<Rightarrow> int \<Rightarrow> int \<Rightarrow> ts_reason + unit" where
  "validate_date y m d =
     (if \<not> (1 \<le> m \<and> m \<le> 12) then Inl (MonthRange m)
      else if \<not> (1 \<le> d \<and> d \<le> 31) then Inl (DayRange d)
      else if \<not> datetime_ok y m d then Inl CalendarRange
      else Inr ())"

definition validate_time :: "int \<Rightarrow> int \<Rightarrow> int \<Rightarrow> ts_reason + unit" where
  "validate_time h mi s =
     (if \<not> (0 \<le> h \<and> h \<le> 23) then Inl (HourRange h)
      else if \<not> (0 \<le> mi \<and> mi \<le> 59) then Inl (MinuteRange mi)
      else if \<not> (0 \<le> s \<and> s \<le> 59) then Inl (SecondRange s)
      else Inr ())"

text \<open>\<open>_convert_tz_offset\<close>; the slices \<open>[1:3]\<close> and \<open>[3:5]\<close> never raise.\<close>

definition convert_tz_offset :: "string \<Rightarrow> string" where
  "convert_tz_offset hl7_offset =
     (if hl7_offset = [] then ''Z''
      else if hl7_offset = ''Z'' \<or> hl7_offset = ''+0000'' \<or> hl7_offset = ''-0000'' then ''Z''
      else take 1 hl7_offset @ take 2 (drop 1 hl7_offset) @ '':'' @ take 2 (drop 3 hl7_offset))"

text \<open>The date and the time of day as the f-strings print them.\<close>

definition iso_date :: "int \<Rightarrow> int \<Rightarrow> int \<Rightarrow> string" where
  "iso_date y m d = fmt_d 4 y @ ''-'' @ fmt_d 2 m @ ''-'' @ fmt_d 2 d"

definition tz_suffix :: "bool \<Rightarrow> string" where
  "tz_suffix assume_utc = (if assume_utc then ''Z'' else '''')"

text \<open>
  The checks shared by the branches of \<open>_convert_matched_timestamp\<close> that carry a time:
  \<open>_validate_date\<close>, then \<open>_validate_time\<close>; the first \<open>ValueError\<close> becomes the
  \<open>InvalidTimestampError\<close> on \<open>match.group(0)\<close>.
\<close>

definition checked :: "string \<Rightarrow> ts_reason + unit \<Rightarrow> ts_reason + unit \<Rightarrow> string \<Rightarrow> error + string" where
  "checked g0 vd vt out =
     (case vd of Inl r \<Rightarrow> Inl (InvalidTimestampError g0 r)
      | Inr _ \<Rightarrow> (case vt of Inl r \<Rightarrow> Inl (InvalidTimestampError g0 r) | Inr _ \<Rightarrow> Inr out))"

text \<open>
  \<open>_convert_matched_timestamp\<close>. The groups of a match are as many as its pattern has, so
  \<open>groups[i]\<close> never raises in the source; the model reads them with \<open>grp\<close> and gives the
  final \<open>unhandled format type\<close> error to a group list of any other length.
\<close>

definition grp :: "string list \<Rightarrow> nat \<Rightarrow> int" where
  "grp gs i = py_int (gs ! i)"

definition date_part :: "string list \<Rightarrow> string" where
  "date_part gs = iso_date (grp gs 0) (grp gs 1) (grp gs 2)"

definition date_check :: "string list \<Rightarrow> ts_reason + unit" where
  "date_check gs = validate_date (grp gs 0) (grp gs 1) (grp gs 2)"

definition convert_matched_timestamp :: "string \<Rightarrow> string list \<Rightarrow> format_type \<Rightarrow> bool \<Rightarrow> error + string" where
  "convert_matched_timestamp g0 gs ft assume_utc =
    (case ft of
       year \<Rightarrow>
         if length gs \<noteq> 1 then Inl (InvalidTimestampError g0 UnhandledFormat)
         else Inr (fmt_d 4 (grp gs 0))
     | month \<Rightarrow>
         if length gs \<noteq> 2 then Inl (InvalidTimestampError g0 UnhandledFormat)
         else Inr (fmt_d 4 (grp gs 0) @ ''-'' @ fmt_d 2 (grp gs 1))
     | date \<Rightarrow>
         if length gs \<noteq> 3 then Inl (InvalidTimestampError g0 UnhandledFormat)
         else checked g0 (date_check gs) (Inr ()) (date_part gs)
     | hours \<Rightarrow>
         if length gs \<noteq> 4 then Inl (InvalidTimestampError g0 UnhandledFormat)
         else checked g0 (date_check gs) (validate_time (grp gs 3) 0 0)
                (date_part gs @ ''T'' @ fmt_d 2 (grp gs 3) @ '':00:00'' @ tz_suffix assume_utc)
     | minutes \<Rightarrow>
         if length gs \<noteq> 5 then Inl (InvalidTimestampError g0 UnhandledFormat)
         else checked g0 (date_check gs) (validate_time (grp gs 3) (grp gs 4) 0)
                (date_part gs @ ''T'' @ fmt_d 2 (grp gs 3) @ '':'' @ fmt_d 2 (grp gs 4) @ '':00''
                   @ tz_suffix assume_utc)
     | full \<Rightarrow>
         if length gs \<noteq> 6 then Inl (InvalidTimestampError g0 UnhandledFormat)
         else checked g0 (date_check gs) (validate_time (grp gs 3) (grp gs 4) (grp gs 5))
                (date_part gs @ ''T'' @ fmt_d 2 (grp gs 3) @ '':'' @ fmt_d 2 (grp gs 4) @ '':''
                   @ fmt_d 2 (grp gs 5) @ tz_suffix assume_utc)
     | full_with_fraction \<Rightarrow>
         if length gs \<noteq> 7 then Inl (InvalidTimestampError g0 UnhandledFormat)
         else checked g0 (date_check gs) (validate_time (grp gs 3) (grp gs 4) (grp gs 5))
                (date_part gs @ ''T'' @ fmt_d 2 (grp gs 3) @ '':'' @ fmt_d 2 (grp gs 4) @ '':''
                   @ fmt_d 2 (grp gs 5) @ ''.'' @ ljust0 3 (take 3 (gs ! 6)) @ tz_suffix assume_utc)
     | minutes_with_tz \<Rightarrow>
         if length gs \<noteq> 6 then Inl (InvalidTimestampError g0 UnhandledFormat)
         else checked g0 (date_check gs) (validate_time (grp gs 3) (grp gs 4) 0)
                (date_part gs @ ''T'' @ fmt_d 2 (grp gs 3) @ '':'' @ fmt_d 2 (grp gs 4) @ '':00''
                   @ convert_tz_offset (gs ! 5))
     | full_with_tz \<Rightarrow>
         if length gs \<noteq> 7 then Inl (InvalidTimestampError g0 UnhandledFormat)
         else checked g0 (date_check gs) (validate_time (grp gs 3) (grp gs 4) (grp gs 5))
                (date_part gs @ ''T'' @ fmt_d 2 (grp gs 3) @ '':'' @ fmt_d 2 (grp gs 4) @ '':''
                   @ fmt_d 2 (grp gs 5) @ convert_tz_offset (gs ! 6))
     | full_with_tz_fraction \<Rightarrow>
         if length gs \<noteq> 8 then Inl (InvalidTimestampError g0 UnhandledFormat)
         else checked g0 (date_check gs) (validate_time (grp gs 3) (grp gs 4) (grp gs 5))
                (date_part gs @ ''T'' @ fmt_d 2 (grp gs 3) @ '':'' @ fmt_d 2 (grp gs 4) @ '':''
                   @ fmt_d 2 (grp gs 5) @ ''.'' @ ljust0 3 (take 3 (gs ! 6))
                   @ convert_tz_offset (gs ! 7)))"

text \<open>\<open>match.group(0)\<close>: the value without the final newline that \<open>$\<close> may leave unmatched.\<close>

definition group0 :: "string \<Rightarrow> string" where
  "group0 v = (if v \<noteq> [] \<and> last v = CHR 0x0A then butlast v else v)"

text \<open>The loop of \<open>parse_hl7_timestamp\<close> over the patterns: the first that matches decides.\<close>

fun first_match :: "(tok list \<times> format_type) list \<Rightarrow> string \<Rightarrow> bool \<Rightarrow> error + string" where
  "first_match [] v assume_utc = Inl (InvalidTimestampError v NoKnownFormat)"
| "first_match ((p, ft) # ps) v assume_utc =
     (case match_toks p v of
        Some gs \<Rightarrow> convert_matched_timestamp (group0 v) gs ft assume_utc
      | None \<Rightarrow> first_match ps v assume_utc)"

text \<open>\<open>parse_hl7_timestamp\<close>: \<open>Inr None\<close> is the return of \<open>None\<close> on blank input.\<close>

definition parse_hl7_timestamp :: "string \<Rightarrow> bool \<Rightarrow> error + string option" where
  "parse_hl7_timestamp v assume_utc =
     (if v = [] \<or> py_strip v = [] then Inr None
      else map_sum id Some (first_match HL7_TIMESTAMP_PATTERNS (py_strip v) assume_utc))"

text \<open>
  \<open>int(s)\<close> on any string, as \<open>parse_hl7_date\<close> applies it to slices of the value:
  surrounding whitespace is dropped, one sign may come first, and the digits may have
  single underscores between them. \<open>None\<close> is the \<open>ValueError\<close>. The whitespace that
  \<open>int\<close> drops is narrower than that of \<open>str.strip\<close>: TAB..CR, the space, NEL and NBSP,
  without the separators FS..US.
\<close>

definition isspace_int :: "char \<Rightarrow> bool" where
  "isspace_int c = ((9 \<le> code c \<and> code c \<le> 13) \<or> code c = 32 \<or> code c = 133 \<or> code c = 160)"

definition int_strip :: "string \<Rightarrow> string" where
  "int_strip s = rev (dropWhile isspace_int (rev (dropWhile isspace_int s)))"

fun wf_digits :: "string \<Rightarrow> bool" where
  "wf_digits [] = False"
| "wf_digits [c] = isdigit c"
| "wf_digits (c # d # r) = (isdigit c \<and> (if d = CHR ''_'' then wf_digits r else wf_digits (d # r)))"

definition int_literal :: "string \<Rightarrow> int option" where
  "int_literal s =
     (let t = int_strip s;
          neg = (t \<noteq> [] \<and> hd t = CHR ''-'');
          body = (if t \<noteq> [] \<and> (hd t = CHR ''-'' \<or> hd t = CHR ''+'') then tl t else t)
      in if wf_digits body
         then Some ((if neg then - 1 else 1) * py_int (filter (\<lambda>c. c \<noteq> CHR ''_'') body))
         else None)"

text \<open>\<open>parse_hl7_date\<close>.\<close>

definition parse_hl7_date :: "string \<Rightarrow> error + string option" where
  "parse_hl7_date v =
     (if v = [] \<or> py_strip v = [] then Inr None
      else let val = py_strip v in
        if length val = 8 then
          (case (int_literal (take 4 val), int_literal (take 2 (drop 4 val)), int_literal (take 2 (drop 6 val))) of
             (Some y, Some m, Some d) \<Rightarrow>
               (case validate_date y m d of
                  Inl r \<Rightarrow> Inl (InvalidTimestampError val r)
                | Inr _ \<Rightarrow> Inr (Some (iso_date y m d)))
           | _ \<Rightarrow> Inl (InvalidTimestampError val IntLiteral))
        else
          (case parse_hl7_timestamp val False of
             Inl e \<Rightarrow> Inl e
           | Inr None \<Rightarrow> Inr None
           | Inr (Some result) \<Rightarrow>
               if result \<noteq> [] then Inr (Some (if 10 \<le> length result then take 10 result else result))
               else Inr None))"

section \<open>Splitting, replacing, joining\<close>

text \<open>
  \<open>s.split(sep)\<close> cuts at the occurrences of \<open>sep\<close> found from the left, not overlapping,
  and always returns at least one piece; on an empty separator it raises \<open>ValueError\<close>.
  \<open>split_from sep cur s\<close> is the scan with the piece \<open>cur\<close> under way.
\<close>

function split_from :: "string \<Rightarrow> string \<Rightarrow> string \<Rightarrow> string list" where
  "split_from sep cur s =
     (if s = [] then [cur]
      else if sep \<noteq> [] \<and> take (length sep) s = sep then cur # split_from sep [] (drop (length sep) s)
      else split_from sep (cur @ [hd s]) (tl s))"
  by pat_completeness auto
termination
  by (relation "measure (\<lambda>(sep, cur, s). length s)") auto

declare split_from.simps [simp del]

definition py_split :: "string \<Rightarrow> string \<Rightarrow> error + string list" where
  "py_split sep s = (if sep = [] then Inl ValueError else Inr (split_from sep [] s))"

text \<open>\<open>s.replace(old, new)\<close> for a non-empty \<open>old\<close>, and \<open>sep.join(xs)\<close>.\<close>

function py_replace :: "string \<Rightarrow> string \<Rightarrow> string \<Rightarrow> string" where
  "py_replace old new s =
     (if s = [] then []
      else if old \<noteq> [] \<and> take (length old) s = old then new @ py_replace old new (drop (length old) s)
      else hd s # py_replace old new (tl s))"
  by pat_completeness auto
termination
  by (relation "measure (\<lambda>(old, new, s). length s)") auto

declare py_replace.simps [simp del]

fun py_join :: "string \<Rightarrow> string list \<Rightarrow> string" where
  "py_join sep [] = []"
| "py_join sep [x] = x"
| "py_join sep (x # y # ys) = x @ sep @ py_join sep (y # ys)"

text \<open>\<open>sub in s\<close> on strings.\<close>

fun contains :: "string \<Rightarrow> string \<Rightarrow> bool" where
  "contains sub [] = (sub = [])"
| "contains sub (c # s) = (take (length sub) (c # s) = sub \<or> contains sub s)"

section \<open>Delimiters and segments (tokenizer.py)\<close>

record delimiters =
  field :: string
  component :: string
  repetition :: string
  escape :: string
  subcomponent :: string

definition default_delimiters :: delimiters where
  "default_delimiters =
     \<lparr>field = ''|'', component = ''^'', repetition = ''~'', escape = [CHR 0x5C], subcomponent = ''&''\<rparr>"

record segment =
  segment_type :: string
  seg_fields :: "string list"
  raw_text :: string

text \<open>
  \<open>Segment.get_field\<close>: \<open>self.fields[index] or default\<close> behind the range check
  (\<open>seg_fields\<close> is the attribute \<open>fields\<close>).
\<close>

definition get_field :: "segment \<Rightarrow> int \<Rightarrow> string \<Rightarrow> string" where
  "get_field seg index dflt =
     (if index < 0 \<or> index \<ge> int (length (seg_fields seg)) then dflt
      else if seg_fields seg ! nat index = [] then dflt else seg_fields seg ! nat index)"

text \<open>\<open>Segment.get_component\<close>; the inner \<open>get_field\<close> has the default \<open>""\<close>.\<close>

definition get_component :: "segment \<Rightarrow> int \<Rightarrow> int \<Rightarrow> string \<Rightarrow> string \<Rightarrow> error + string" where
  "get_component seg field_index component_index separator dflt =
     (let field_value = get_field seg field_index [] in
      if field_value = [] then Inr dflt
      else (case py_split separator field_value of
              Inl e \<Rightarrow> Inl e
            | Inr components \<Rightarrow>
                if component_index < 0 \<or> component_index \<ge> int (length components) then Inr dflt
                else if components ! nat component_index = [] then Inr dflt
                else Inr (components ! nat component_index)))"


section \<open>The tokenizer (tokenizer.py)\<close>

text \<open>
  The tokenizer object holds one attribute, \<open>self.delimiters\<close>, set to the defaults when
  the object is made and assigned to by \<open>_detect_delimiters\<close>. The methods that read or
  write it take the delimiters as an argument; those that write it return the new value.
\<close>

definition normalize_line_endings :: "string \<Rightarrow> string" where
  "normalize_line_endings text = py_replace [CHR 0x0D] [CHR 0x0A] (py_replace [CHR 0x0D, CHR 0x0A] [CHR 0x0A] text)"

text \<open>
  \<open>_detect_delimiters\<close> before its call of \<open>_validate_delimiters\<close>: the first raw segment
  that starts with \<open>MSH\<close> decides, and only the attributes its length reaches are assigned.
\<close>

definition assign_encoding :: "delimiters \<Rightarrow> string \<Rightarrow> delimiters" where
  "assign_encoding dl encoding =
     (let d1 = (if 1 \<le> length encoding then dl\<lparr>component := [encoding ! 0]\<rparr> else dl);
          d2 = (if 2 \<le> length encoding then d1\<lparr>repetition := [encoding ! 1]\<rparr> else d1);
          d3 = (if 3 \<le> length encoding then d2\<lparr>escape := [encoding ! 2]\<rparr> else d2)
      in (if 4 \<le> length encoding then d3\<lparr>subcomponent := [encoding ! 3]\<rparr> else d3))"

definition assign_from_msh :: "delimiters \<Rightarrow> string \<Rightarrow> delimiters" where
  "assign_from_msh dl raw =
     (let d1 = (if 4 \<le> length raw then dl\<lparr>field := [raw ! 3]\<rparr> else dl)
      in (if 8 \<le> length raw then assign_encoding d1 (take 4 (drop 4 raw)) else d1))"

fun detect_delimiters :: "delimiters \<Rightarrow> string list \<Rightarrow> delimiters" where
  "detect_delimiters dl [] = dl"
| "detect_delimiters dl (raw # raws) =
     (if startswith raw ''MSH'' then assign_from_msh dl raw else detect_delimiters dl raws)"

text \<open>
  \<open>_validate_delimiters\<close>: the first loop refuses an empty, alphanumeric or whitespace
  delimiter, the second a delimiter already seen; both in the order field, component,
  repetition, escape, subcomponent.
\<close>

definition named_delimiters :: "delimiters \<Rightarrow> (string \<times> string) list" where
  "named_delimiters dl =
     [(''field'', field dl), (''component'', component dl), (''repetition'', repetition dl),
      (''escape'', escape dl), (''subcomponent'', subcomponent dl)]"

definition invalid_delimiter_msg :: "string \<Rightarrow> string \<Rightarrow> string" where
  "invalid_delimiter_msg name ch =
     ''Invalid '' @ name @ '' delimiter '' @ [CHR 0x27] @ ch @ [CHR 0x27]
       @ '': must be a non-alphanumeric, non-whitespace character''"

definition conflicting_delimiter_msg :: "string \<Rightarrow> string" where
  "conflicting_delimiter_msg ch =
     ''Conflicting delimiter: '' @ [CHR 0x27] @ ch @ [CHR 0x27] @ '' used for multiple purposes''"

fun check_each :: "(string \<times> string) list \<Rightarrow> error + unit" where
  "check_each [] = Inr ()"
| "check_each ((name, ch) # ds) =
     (if ch = [] \<or> str_isalnum ch \<or> str_isspace ch
      then Inl (MalformedSegmentError ''MSH'' (invalid_delimiter_msg name ch))
      else check_each ds)"

fun check_conflicts :: "string set \<Rightarrow> (string \<times> string) list \<Rightarrow> error + unit" where
  "check_conflicts chars_used [] = Inr ()"
| "check_conflicts chars_used ((name, ch) # ds) =
     (if ch \<in> chars_used
      then Inl (MalformedSegmentError ''MSH'' (conflicting_delimiter_msg ch))
      else check_conflicts (insert ch chars_used) ds)"

definition validate_delimiters :: "delimiters \<Rightarrow> error + unit" where
  "validate_delimiters dl =
     (case check_each (named_delimiters dl) of
        Inl e \<Rightarrow> Inl e
      | Inr _ \<Rightarrow> check_conflicts {} (named_delimiters dl))"

text \<open>\<open>_parse_msh_segment\<close> and \<open>_parse_segment\<close>; \<open>None\<close> is the return of \<open>None\<close>.\<close>

definition parse_msh_segment :: "delimiters \<Rightarrow> string \<Rightarrow> error + segment" where
  "parse_msh_segment dl raw =
     (let sep = (if 3 < length raw then [raw ! 3] else field dl) in
      case py_split sep raw of
        Inl e \<Rightarrow> Inl e
      | Inr parts \<Rightarrow>
          Inr \<lparr>segment_type = ''MSH'',
               seg_fields = (if parts \<noteq> [] then [hd parts, sep] @ tl parts else [''MSH'', sep]),
               raw_text = raw\<rparr>)"

definition parse_segment :: "delimiters \<Rightarrow> string \<Rightarrow> error + segment option" where
  "parse_segment dl raw =
     (if raw = [] then Inr None
      else if startswith raw ''MSH'' then map_sum id Some (parse_msh_segment dl raw)
      else (case py_split (field dl) raw of
              Inl e \<Rightarrow> Inl e
            | Inr fs \<Rightarrow>
                if fs = [] then Inr None
                else Inr (Some \<lparr>segment_type = hd fs, seg_fields = fs, raw_text = raw\<rparr>)))"

fun parse_segments :: "delimiters \<Rightarrow> string list \<Rightarrow> error + segment list" where
  "parse_segments dl [] = Inr []"
| "parse_segments dl (raw # raws) =
     (case parse_segment dl raw of
        Inl e \<Rightarrow> Inl e
      | Inr so \<Rightarrow>
          (case parse_segments dl raws of
             Inl e \<Rightarrow> Inl e
           | Inr segs \<Rightarrow> Inr (case so of None \<Rightarrow> segs | Some sg \<Rightarrow> sg # segs)))"

text \<open>
  \<open>tokenize\<close>: the result, and the delimiters the tokenizer holds afterwards (also when
  the validation raised: the assignments came first).
\<close>

definition raw_segments_of :: "string \<Rightarrow> string list" where
  "raw_segments_of message_text =
     map py_strip (filter (\<lambda>s. py_strip s \<noteq> []) (split_from [CHR 0x0A] [] (normalize_line_endings message_text)))"

definition tokenize :: "delimiters \<Rightarrow> string \<Rightarrow> (error + segment list) \<times> delimiters" where
  "tokenize dl message_text =
     (let raw_segments = raw_segments_of message_text in
      if raw_segments = [] then (Inr [], dl)
      else let dl' = detect_delimiters dl raw_segments in
        (case validate_delimiters dl' of
           Inl e \<Rightarrow> (Inl e, dl')
         | Inr _ \<Rightarrow> (parse_segments dl' raw_segments, dl')))"

text \<open>\<open>split_hl7_messages\<close>: the loop over the lines with the messages so far and the lines of
  the message under way.\<close>

fun split_loop :: "string list \<Rightarrow> string list \<Rightarrow> string list \<Rightarrow> string list" where
  "split_loop [] messages current_message_lines =
     (if current_message_lines \<noteq> [] then messages @ [py_join [CHR 0x0A] current_message_lines]
      else messages)"
| "split_loop (line # lines) messages current_message_lines =
     (let stripped = py_strip line in
      if stripped = [] then split_loop lines messages current_message_lines
      else if startswith stripped ''MSH''
      then split_loop lines
             (if current_message_lines \<noteq> [] then messages @ [py_join [CHR 0x0A] current_message_lines]
              else messages)
             [stripped]
      else split_loop lines messages
             (if current_message_lines \<noteq> [] then current_message_lines @ [stripped]
              else current_message_lines))"

definition split_hl7_messages :: "string \<Rightarrow> string list" where
  "split_hl7_messages content =
     split_loop (split_from [CHR 0x0A] [] (normalize_line_endings content)) [] []"

section \<open>Domain models (models.py)\<close>

record patient =
  patient_id :: string
  first_name :: "string option"
  last_name :: "string option"
  dob :: "string option"
  gender :: "string option"

record provider =
  provider_id :: string
  provider_name :: "string option"

record appointment =
  appointment_id :: string
  appointment_datetime :: "string option"
  appt_patient :: "patient option"
  appt_provider :: "provider option"
  location :: "string option"
  reason :: "string option"
  message_control_id :: "string option"
  message_datetime :: "string option"

record parse_result =
  result_appointment :: appointment
  warnings :: "string list"
  source_message_index :: int

text \<open>
  The dictionaries of \<open>to_dict\<close> are lists of key and value in insertion order. An entry
  \<open>opt_entry k v\<close> is there when the attribute is not \<open>None\<close> (the test of \<open>Patient.to_dict\<close>
  and \<open>Provider.to_dict\<close>); \<open>truthy_entry k v\<close> when it is neither \<open>None\<close> nor empty (the
  \<open>if self.x:\<close> of \<open>Appointment.to_dict\<close>).
\<close>

datatype jval = JStr string | JInt int | JList "jval list" | JDict "(string \<times> jval) list"

definition opt_entry :: "string \<Rightarrow> string option \<Rightarrow> (string \<times> jval) list" where
  "opt_entry k v = (case v of None \<Rightarrow> [] | Some x \<Rightarrow> [(k, JStr x)])"

definition truthy_entry :: "string \<Rightarrow> string option \<Rightarrow> (string \<times> jval) list" where
  "truthy_entry k v = (case v of None \<Rightarrow> [] | Some x \<Rightarrow> if x = [] then [] else [(k, JStr x)])"

definition patient_to_dict :: "patient \<Rightarrow> (string \<times> jval) list" where
  "patient_to_dict p =
     [(''id'', JStr (patient_id p))] @ opt_entry ''first_name'' (first_name p)
       @ opt_entry ''last_name'' (last_name p) @ opt_entry ''dob'' (dob p) @ opt_entry ''gender'' (gender p)"

definition provider_to_dict :: "provider \<Rightarrow> (string \<times> jval) list" where
  "provider_to_dict p = [(''id'', JStr (provider_id p))] @ opt_entry ''name'' (provider_name p)"

definition appointment_to_dict :: "appointment \<Rightarrow> (string \<times> jval) list" where
  "appointment_to_dict a =
     (if appointment_id a \<noteq> [] then [(''appointment_id'', JStr (appointment_id a))] else [])
       @ truthy_entry ''appointment_datetime'' (appointment_datetime a)
       @ (case appt_patient a of None \<Rightarrow> [] | Some p \<Rightarrow> [(''patient'', JDict (patient_to_dict p))])
       @ (case appt_provider a of None \<Rightarrow> [] | Some p \<Rightarrow> [(''provider'', JDict (provider_to_dict p))])
       @ truthy_entry ''location'' (location a)
       @ truthy_entry ''reason'' (reason a)
       @ truthy_entry ''message_control_id'' (message_control_id a)
       @ truthy_entry ''message_datetime'' (message_datetime a)"

definition parse_result_to_dict :: "parse_result \<Rightarrow> (string \<times> jval) list" where
  "parse_result_to_dict r =
     [(''appointment'', JDict (appointment_to_dict (result_appointment r))),
      (''message_index'', JInt (source_message_index r))]
       @ (if warnings r \<noteq> [] then [(''warnings'', JList (map JStr (warnings r)))] else [])"

section \<open>Segment extractors (extractors.py)\<close>

text \<open>
  An extractor object holds the delimiters it was made with; each method takes them as
  its first argument. \<open>x or None\<close> on a string is \<open>or_none\<close>; \<open>components[k] if
  len(components) > k else ""\<close> is \<open>comp_at\<close>.
\<close>

definition or_none :: "string \<Rightarrow> string option" where
  "or_none x = (if x = [] then None else Some x)"

definition comp_at :: "string list \<Rightarrow> nat \<Rightarrow> string" where
  "comp_at components k = (if k < length components then components ! k else [])"

subsection \<open>MSHExtractor\<close>

definition extract_message_type :: "delimiters \<Rightarrow> segment \<Rightarrow> error + (string \<times> string)" where
  "extract_message_type dl seg =
     (let msg_type_field = get_field seg 9 [] in
      if msg_type_field = [] then Inr ([], [])
      else (case py_split (component dl) msg_type_field of
              Inl e \<Rightarrow> Inl e
            | Inr components \<Rightarrow> Inr (comp_at components 0, comp_at components 1)))"

definition extract_control_id :: "delimiters \<Rightarrow> segment \<Rightarrow> string" where
  "extract_control_id dl seg = get_field seg 10 []"

text \<open>\<open>try: return parse_hl7_timestamp(x) except Exception: ...\<close>: the error is dropped.\<close>

definition try_timestamp :: "string \<Rightarrow> string option option" where
  "try_timestamp x = (case parse_hl7_timestamp x True of Inl e \<Rightarrow> None | Inr r \<Rightarrow> Some r)"

definition extract_timestamp :: "delimiters \<Rightarrow> segment \<Rightarrow> string option" where
  "extract_timestamp dl seg =
     (let raw_ts = get_field seg 7 [] in
      if raw_ts = [] then None
      else (case try_timestamp raw_ts of None \<Rightarrow> None | Some r \<Rightarrow> r))"

subsection \<open>SCHExtractor\<close>

definition extract_appointment_id :: "delimiters \<Rightarrow> segment \<Rightarrow> error + string" where
  "extract_appointment_id dl seg =
     (case get_component seg 2 0 (component dl) [] of
        Inl e \<Rightarrow> Inl e
      | Inr filler_id \<Rightarrow>
          if filler_id \<noteq> [] then Inr filler_id
          else (case get_component seg 1 0 (component dl) [] of
                  Inl e \<Rightarrow> Inl e
                | Inr placer_id \<Rightarrow> Inr placer_id))"

text \<open>
  \<open>extract_appointment_datetime\<close>: the loop over the fields 10 and 11. A \<open>return\<close> inside a
  \<open>try\<close> ends the method with whatever the parser returned, \<open>None\<close> included; an exception
  there goes on to the next attempt.
\<close>

fun datetime_loop :: "delimiters \<Rightarrow> segment \<Rightarrow> int list \<Rightarrow> error + string option" where
  "datetime_loop dl seg [] = Inr None"
| "datetime_loop dl seg (field_index # rest) =
     (let timing_field = get_field seg field_index [] in
      if timing_field = [] then datetime_loop dl seg rest
      else (case py_split (component dl) timing_field of
              Inl e \<Rightarrow> Inl e
            | Inr components \<Rightarrow>
                (case (if 3 < length components \<and> components ! 3 \<noteq> [] then try_timestamp (components ! 3) else None) of
                   Some r \<Rightarrow> Inr r
                 | None \<Rightarrow>
                     (case (if components \<noteq> [] \<and> components ! 0 \<noteq> [] then try_timestamp (components ! 0) else None) of
                        Some r \<Rightarrow> Inr r
                      | None \<Rightarrow> datetime_loop dl seg rest))))"

definition extract_appointment_datetime :: "delimiters \<Rightarrow> segment \<Rightarrow> error + string option" where
  "extract_appointment_datetime dl seg = datetime_loop dl seg [10, 11]"

fun reason_loop :: "delimiters \<Rightarrow> segment \<Rightarrow> int list \<Rightarrow> error + string" where
  "reason_loop dl seg [] = Inr []"
| "reason_loop dl seg (field_index # rest) =
     (let reason_field = get_field seg field_index [] in
      if reason_field = [] then reason_loop dl seg rest
      else (case py_split (component dl) reason_field of
              Inl e \<Rightarrow> Inl e
            | Inr components \<Rightarrow>
                if 1 < length components \<and> components ! 1 \<noteq> [] then Inr (py_strip (components ! 1))
                else if components \<noteq> [] \<and> components ! 0 \<noteq> [] then Inr (py_strip (components ! 0))
                else reason_loop dl seg rest))"

definition extract_reason :: "delimiters \<Rightarrow> segment \<Rightarrow> error + string" where
  "extract_reason dl seg = reason_loop dl seg [6, 7]"

definition sch_extract_location :: "delimiters \<Rightarrow> segment \<Rightarrow> error + string" where
  "sch_extract_location dl seg =
     (let loc = get_field seg 23 [] in
      if loc \<noteq> [] then
        (case py_split (component dl) loc of
           Inl e \<Rightarrow> Inl e
         | Inr components \<Rightarrow>
             (let parts = map py_strip (filter (\<lambda>c. py_strip c \<noteq> []) (take 3 components)) in
              Inr (if parts \<noteq> [] then py_join '' '' parts else py_strip loc)))
      else Inr [])"

subsection \<open>PIDExtractor\<close>

definition extract_patient_id :: "delimiters \<Rightarrow> segment \<Rightarrow> error + string" where
  "extract_patient_id dl seg =
     (let id_field = get_field seg 3 [] in
      if id_field = [] then Inr []
      else (case py_split (repetition dl) id_field of
              Inl e \<Rightarrow> Inl e
            | Inr reps \<Rightarrow>
                (case py_split (component dl) (hd reps) of
                   Inl e \<Rightarrow> Inl e
                 | Inr cs \<Rightarrow> Inr (hd cs))))"

text \<open>\<open>_extract_name\<close> returns the pair (given name, family name).\<close>

definition extract_name :: "delimiters \<Rightarrow> segment \<Rightarrow> error + (string \<times> string)" where
  "extract_name dl seg =
     (let name_field = get_field seg 5 [] in
      if name_field = [] then Inr ([], [])
      else (case py_split (repetition dl) name_field of
              Inl e \<Rightarrow> Inl e
            | Inr reps \<Rightarrow>
                (case py_split (component dl) (hd reps) of
                   Inl e \<Rightarrow> Inl e
                 | Inr components \<Rightarrow>
                     (let family_name = comp_at components 0; given_name = comp_at components 1 in
                      if contains (subcomponent dl) family_name
                      then (case py_split (subcomponent dl) family_name of
                              Inl e \<Rightarrow> Inl e
                            | Inr subs \<Rightarrow> Inr (given_name, hd subs))
                      else Inr (given_name, family_name)))))"

definition extract_dob :: "delimiters \<Rightarrow> segment \<Rightarrow> string option" where
  "extract_dob dl seg =
     (let dob_field = get_field seg 7 [] in
      if dob_field = [] then None
      else (case parse_hl7_date dob_field of Inl e \<Rightarrow> None | Inr r \<Rightarrow> r))"

definition extract_gender :: "delimiters \<Rightarrow> segment \<Rightarrow> string" where
  "extract_gender dl seg = get_field seg 8 []"

definition extract_patient :: "delimiters \<Rightarrow> segment \<Rightarrow> error + patient" where
  "extract_patient dl seg =
     (case extract_patient_id dl seg of
        Inl e \<Rightarrow> Inl e
      | Inr pid \<Rightarrow>
          (case extract_name dl seg of
             Inl e \<Rightarrow> Inl e
           | Inr (given, family) \<Rightarrow>
               Inr \<lparr>patient_id = pid, first_name = or_none given, last_name = or_none family,
                    dob = extract_dob dl seg, gender = or_none (extract_gender dl seg)\<rparr>))"

subsection \<open>PV1Extractor\<close>

text \<open>\<open>_extract_xcn_field\<close> returns the pair (provider id, display name).\<close>

definition extract_xcn_field :: "delimiters \<Rightarrow> segment \<Rightarrow> int \<Rightarrow> error + (string \<times> string)" where
  "extract_xcn_field dl seg field_index =
     (let field_value = get_field seg field_index [] in
      if field_value = [] then Inr ([], [])
      else (case py_split (repetition dl) field_value of
              Inl e \<Rightarrow> Inl e
            | Inr reps \<Rightarrow>
                (case py_split (component dl) (hd reps) of
                   Inl e \<Rightarrow> Inl e
                 | Inr components \<Rightarrow>
                     (let family_name = comp_at components 1; given_name = comp_at components 2;
                          middle_name = comp_at components 3; suffix = comp_at components 4;
                          prefix = comp_at components 5; degree = comp_at components 6;
                          name_parts = filter (\<lambda>x. x \<noteq> [])
                            [prefix, degree, given_name, middle_name, family_name, suffix]
                      in Inr (comp_at components 0, py_join '' '' name_parts)))))"

definition extract_provider :: "delimiters \<Rightarrow> segment \<Rightarrow> error + provider option" where
  "extract_provider dl seg =
     (case extract_xcn_field dl seg 7 of
        Inl e \<Rightarrow> Inl e
      | Inr p7 \<Rightarrow>
          (case (if fst p7 = [] then extract_xcn_field dl seg 17 else Inr p7) of
             Inl e \<Rightarrow> Inl e
           | Inr p17 \<Rightarrow>
               (case (if fst p17 = [] then extract_xcn_field dl seg 8 else Inr p17) of
                  Inl e \<Rightarrow> Inl e
                | Inr (pid, pname) \<Rightarrow>
                    if pid = [] \<and> pname = [] then Inr None
                    else Inr (Some \<lparr>provider_id = (if pid = [] then ''UNKNOWN'' else pid),
                                    provider_name = or_none pname\<rparr>))))"

definition pv1_extract_location :: "delimiters \<Rightarrow> segment \<Rightarrow> error + string" where
  "pv1_extract_location dl seg =
     (let location_field = get_field seg 3 [] in
      if location_field = [] then Inr []
      else (case py_split (component dl) location_field of
              Inl e \<Rightarrow> Inl e
            | Inr components \<Rightarrow>
                (let p_facility = (if 3 < length components \<and> components ! 3 \<noteq> [] then [components ! 3] else []);
                     p_care = (if 0 < length components \<and> components ! 0 \<noteq> [] then [components ! 0] else []);
                     p_room = (if 1 < length components \<and> components ! 1 \<noteq> []
                               then (let room_part = py_strip (components ! 1) in
                                     if startswith (py_lower room_part) ''room'' then [room_part]
                                     else [''Room '' @ room_part])
                               else []);
                     p_bed = (if 2 < length components \<and> components ! 2 \<noteq> [] then [''Bed '' @ components ! 2] else [])
                 in Inr (py_join '' '' (p_facility @ p_care @ p_room @ p_bed)))))"

section \<open>The message parser (parser.py)\<close>

definition EXPECTED_MESSAGE_TYPE :: string where
  "EXPECTED_MESSAGE_TYPE = ''SIU''"

definition EXPECTED_TRIGGER_EVENT :: string where
  "EXPECTED_TRIGGER_EVENT = ''S12''"

text \<open>\<open>_build_segment_map\<close>: the dictionary keeps the first segment of each type.\<close>

fun build_map_from :: "(string \<rightharpoonup> segment) \<Rightarrow> segment list \<Rightarrow> (string \<rightharpoonup> segment)" where
  "build_map_from segment_map [] = segment_map"
| "build_map_from segment_map (sg # segs) =
     build_map_from
       (if segment_map (segment_type sg) = None then segment_map(segment_type sg \<mapsto> sg) else segment_map)
       segs"

definition build_segment_map :: "segment list \<Rightarrow> (string \<rightharpoonup> segment)" where
  "build_segment_map segs = build_map_from Map.empty segs"

text \<open>\<open>_validate_message_type\<close>, with the delimiters of the tokenizer.\<close>

definition validate_message_type :: "delimiters \<Rightarrow> (string \<rightharpoonup> segment) \<Rightarrow> error + unit" where
  "validate_message_type dl segment_map =
     (case segment_map ''MSH'' of
        None \<Rightarrow> Inl (MissingSegmentError ''MSH'')
      | Some msh_segment \<Rightarrow>
          if length (seg_fields msh_segment) < 3 \<or> seg_fields msh_segment ! 2 = []
          then Inl (MalformedSegmentError ''MSH'' ''MSH segment missing required encoding characters'')
          else (case extract_message_type dl msh_segment of
                  Inl e \<Rightarrow> Inl e
                | Inr (message_type, trigger_event) \<Rightarrow>
                    (let expected = EXPECTED_MESSAGE_TYPE @ ''^'' @ EXPECTED_TRIGGER_EVENT;
                         actual = (if trigger_event \<noteq> [] then message_type @ ''^'' @ trigger_event
                                   else message_type)
                     in if message_type \<noteq> EXPECTED_MESSAGE_TYPE
                        then Inl (InvalidMessageTypeError expected actual)
                        else if trigger_event \<noteq> [] \<and> trigger_event \<noteq> EXPECTED_TRIGGER_EVENT
                        then Inl (InvalidMessageTypeError expected actual)
                        else Inr ())))"

text \<open>
  The extraction part of \<open>_parse_single_message\<close> (from the making of the extractors to
  the \<open>return\<close>), in the order of the source: the scheduling segment, the patient segment,
  the provider segment, the header, the assembly. The scheduling step gives the
  appointment id, the date and time, the reason, the location and the warnings so far.
\<close>

definition sch_warning :: string where
  "sch_warning = ''SCH segment not found - appointment details may be incomplete''"

definition pid_warning :: string where
  "pid_warning = ''PID segment not found - patient information unavailable''"

definition pv1_warning :: string where
  "pv1_warning = ''PV1 segment not found - provider information unavailable''"

definition sch_step :: "bool \<Rightarrow> delimiters \<Rightarrow> (string \<rightharpoonup> segment)
    \<Rightarrow> error + (string \<times> string option \<times> string \<times> string \<times> string list)" where
  "sch_step strict_mode dl segment_map =
     (case segment_map ''SCH'' of
        Some sch_segment \<Rightarrow>
          (case extract_appointment_id dl sch_segment of
             Inl e \<Rightarrow> Inl e
           | Inr aid \<Rightarrow>
               (case extract_appointment_datetime dl sch_segment of
                  Inl e \<Rightarrow> Inl e
                | Inr adt \<Rightarrow>
                    (case extract_reason dl sch_segment of
                       Inl e \<Rightarrow> Inl e
                     | Inr rsn \<Rightarrow>
                         (case sch_extract_location dl sch_segment of
                            Inl e \<Rightarrow> Inl e
                          | Inr loc \<Rightarrow> Inr (aid, adt, rsn, loc, [])))))
      | None \<Rightarrow>
          if strict_mode then Inl (MissingSegmentError ''SCH'')
          else Inr (''UNKNOWN'', None, [], [], [sch_warning]))"

definition pid_step :: "bool \<Rightarrow> delimiters \<Rightarrow> (string \<rightharpoonup> segment) \<Rightarrow> string list
    \<Rightarrow> error + (patient option \<times> string list)" where
  "pid_step strict_mode dl segment_map ws =
     (case segment_map ''PID'' of
        Some pid_segment \<Rightarrow>
          (case extract_patient dl pid_segment of
             Inl e \<Rightarrow> Inl e
           | Inr p \<Rightarrow> Inr (Some p, ws))
      | None \<Rightarrow>
          if strict_mode then Inl (MissingSegmentError ''PID'')
          else Inr (None, ws @ [pid_warning]))"

definition pv1_step :: "delimiters \<Rightarrow> (string \<rightharpoonup> segment) \<Rightarrow> string \<Rightarrow> string list
    \<Rightarrow> error + (provider option \<times> string \<times> string list)" where
  "pv1_step dl segment_map loc ws =
     (case segment_map ''PV1'' of
        Some pv1_segment \<Rightarrow>
          (case extract_provider dl pv1_segment of
             Inl e \<Rightarrow> Inl e
           | Inr prov \<Rightarrow>
               if loc = [] then
                 (case pv1_extract_location dl pv1_segment of
                    Inl e \<Rightarrow> Inl e
                  | Inr loc' \<Rightarrow> Inr (prov, loc', ws))
               else Inr (prov, loc, ws))
      | None \<Rightarrow> Inr (None, loc, ws @ [pv1_warning]))"

definition extract_message :: "bool \<Rightarrow> delimiters \<Rightarrow> (string \<rightharpoonup> segment) \<Rightarrow> int \<Rightarrow> error + parse_result" where
  "extract_message strict_mode dl segment_map message_index =
     (case sch_step strict_mode dl segment_map of
        Inl e \<Rightarrow> Inl e
      | Inr (aid, adt, rsn, loc, ws) \<Rightarrow>
          (case pid_step strict_mode dl segment_map ws of
             Inl e \<Rightarrow> Inl e
           | Inr (pat, ws') \<Rightarrow>
               (case pv1_step dl segment_map loc ws' of
                  Inl e \<Rightarrow> Inl e
                | Inr (prov, loc', ws'') \<Rightarrow>
                    Inr \<lparr>result_appointment =
                           \<lparr>appointment_id = aid,
                            appointment_datetime = adt,
                            appt_patient = pat,
                            appt_provider = prov,
                            location = or_none loc',
                            reason = or_none rsn,
                            message_control_id =
                              (case segment_map ''MSH'' of None \<Rightarrow> None
                               | Some msh_segment \<Rightarrow> Some (extract_control_id dl msh_segment)),
                            message_datetime =
                              (case segment_map ''MSH'' of None \<Rightarrow> None
                               | Some msh_segment \<Rightarrow> extract_timestamp dl msh_segment)\<rparr>,
                         warnings = ws'',
                         source_message_index = message_index\<rparr>)))"

text \<open>
  \<open>_parse_single_message\<close> after the tokenizer has returned: no segments, the segment map,
  the validation, the extraction.
\<close>

definition parse_tokenized :: "bool \<Rightarrow> delimiters \<Rightarrow> segment list \<Rightarrow> int \<Rightarrow> error + parse_result" where
  "parse_tokenized strict_mode dl segs message_index =
     (if segs = [] then Inl (MalformedSegmentError [] ''Message contains no valid segments'')
      else (case validate_message_type dl (build_segment_map segs) of
              Inl e \<Rightarrow> Inl e
            | Inr _ \<Rightarrow> extract_message strict_mode dl (build_segment_map segs) message_index))"

text \<open>
  \<open>_parse_single_message\<close>: the parser holds one tokenizer for all its messages, so the
  delimiters that tokenizer holds go in and come out.
\<close>

definition parse_single_message :: "bool \<Rightarrow> delimiters \<Rightarrow> string \<Rightarrow> int \<Rightarrow> (error + parse_result) \<times> delimiters" where
  "parse_single_message strict_mode dl message_text message_index =
     (case tokenize dl message_text of
        (Inl e, dl') \<Rightarrow> (Inl e, dl')
      | (Inr segs, dl') \<Rightarrow> (parse_tokenized strict_mode dl' segs message_index, dl'))"

text \<open>The loop of \<open>parse\<close> over the messages: the first error ends it.\<close>

fun parse_loop :: "bool \<Rightarrow> delimiters \<Rightarrow> string list \<Rightarrow> int \<Rightarrow> parse_result list
    \<Rightarrow> (error + parse_result list) \<times> delimiters" where
  "parse_loop strict_mode dl [] idx results = (Inr results, dl)"
| "parse_loop strict_mode dl (message_text # rest) idx results =
     (case parse_single_message strict_mode dl message_text idx of
        (Inl e, dl') \<Rightarrow> (Inl e, dl')
      | (Inr r, dl') \<Rightarrow> parse_loop strict_mode dl' rest (idx + 1) (results @ [r]))"

text \<open>\<open>SIUParser.parse\<close> on a parser whose tokenizer holds \<open>dl\<close>.\<close>

definition parse :: "bool \<Rightarrow> delimiters \<Rightarrow> string \<Rightarrow> (error + parse_result list) \<times> delimiters" where
  "parse strict_mode dl content =
     (if content = [] \<or> py_strip content = [] then (Inr [], dl)
      else parse_loop strict_mode dl (split_hl7_messages content) 0 [])"

text \<open>\<open>parse_hl7_message\<close>: a new parser, whose tokenizer holds the defaults.\<close>

definition parse_hl7_message :: "string \<Rightarrow> bool \<Rightarrow> error + parse_result list" where
  "parse_hl7_message content strict = fst (parse strict default_delimiters content)"

section \<open>Example inputs\<close>


definition example_sch :: segment where
  "example_sch =
     \<lparr>segment_type = ''SCH'',
      seg_fields = [''SCH'', ''PL123'', ''AP456'', [], [], [], [], ''CONSULT^General Consultation'',
                    [], [], [], ''20250502140000''],
      raw_text = ''SCH|PL123|AP456|||||CONSULT^General Consultation||||20250502140000''\<rparr>"

definition example_pv1 :: segment where
  "example_pv1 =
     \<lparr>segment_type = ''PV1'',
      seg_fields = [''PV1'', ''1'', ''O'', ''CLINIC^101^^MainHospital'', [], [], [],
                    ''D67890^Smith^Jane^^^Dr.'', [], [], [], [], [], [], [], [], [],
                    ''A11111^Jones^Amy''],
      raw_text = ''PV1|1|O|CLINIC^101^^MainHospital||||D67890^Smith^Jane^^^Dr.||||||||||A11111^Jones^Amy''\<rparr>"

definition example_msh :: segment where
  "example_msh =
     \<lparr>segment_type = ''MSH'',
      seg_fields = [''MSH'', ''|'', ''^~'' @ [CHR 0x5C] @ ''&'', ''SND'', ''FAC'', [], ''RCV'', ''20250502'', [],
                    ''SIU^S12'', ''1'', ''P'', ''2.5''],
      raw_text = ''MSH|^~'' @ [CHR 0x5C] @ ''&|SND|FAC||RCV|20250502||SIU^S12|1|P|2.5''\<rparr>"

definition example_sch_no_id :: segment where
  "example_sch_no_id =
     \<lparr>segment_type = ''SCH'', seg_fields = [''SCH'', [], [], [], [], [], [], ''CHECKUP''],
      raw_text = ''SCH|||||||CHECKUP''\<rparr>"

definition example_no_id_message :: string where
  "example_no_id_message =
     ''MSH|^~'' @ [CHR 0x5C] @ ''&|SND|FAC||RCV|20250502||SIU^S12|1|P|2.5'' @ [CHR 0x0A] @ ''SCH|||||||CHECKUP''"

definition example_no_id_result :: parse_result where
  "example_no_id_result =
     \<lparr>result_appointment =
        \<lparr>appointment_id = [], appointment_datetime = None, appt_patient = None, appt_provider = None,
         location = None, reason = Some ''CHECKUP'', message_control_id = Some ''1'',
         message_datetime = Some ''2025-05-02''\<rparr>,
      warnings = [pid_warning, pv1_warning],
      source_message_index = 0\<rparr>"

definition example_adt_message :: string where
  "example_adt_message =
     ''MSH|^~'' @ [CHR 0x5C] @ ''&|SND|FAC||RCV|20250502||ADT^A01|1|P|2.5'' @ [CHR 0x0A] @ ''PID|1||P123''"

definition example_adt_msh :: segment where
  "example_adt_msh =
     \<lparr>segment_type = ''MSH'',
      seg_fields = [''MSH'', ''|'', ''^~'' @ [CHR 0x5C] @ ''&'', ''SND'', ''FAC'', [], ''RCV'', ''20250502'', [],
                    ''ADT^A01'', ''1'', ''P'', ''2.5''],
      raw_text = ''MSH|^~'' @ [CHR 0x5C] @ ''&|SND|FAC||RCV|20250502||ADT^A01|1|P|2.5''\<rparr>"

definition example_adt_pid :: segment where
  "example_adt_pid =
     \<lparr>segment_type = ''PID'', seg_fields = [''PID'', ''1'', [], ''P123''], raw_text = ''PID|1||P123''\<rparr>"

definition example_s14_message :: string where
  "example_s14_message =
     ''MSH|^~'' @ [CHR 0x5C] @ ''&|SND|FAC||RCV|20250502||SIU^S14|1|P|2.5'' @ [CHR 0x0A] @ ''SCH|1|1''"

definition example_adt_conflict_message :: string where
  "example_adt_conflict_message =
     ''MSH|^~'' @ [CHR 0x5C] @ ''^|SND|FAC||RCV|20250502||ADT^A01|1|P|2.5'' @ [CHR 0x0A] @ ''PID|1||P123''"

definition example_header_only_message :: string where
  "example_header_only_message =
     ''MSH|^~'' @ [CHR 0x5C] @ ''&|SND|FAC||RCV|20250502||SIU^S12|1|P|2.5''"

definition example_hash_message :: string where
  "example_hash_message =
     ''MSH#|~'' @ [CHR 0x5C] @ ''&#SND#FAC##RCV#20250502##SIU|S12#1#P#2.5''"

definition example_short_header :: string where
  "example_short_header = ''MSH|^~''"

definition example_hash_delimiters :: delimiters where
  "example_hash_delimiters =
     \<lparr>field = ''#'', component = ''|'', repetition = ''~'', escape = [CHR 0x5C], subcomponent = ''&''\<rparr>"

definition example_carried_delimiters :: delimiters where
  "example_carried_delimiters =
     \<lparr>field = ''|'', component = ''|'', repetition = ''~'', escape = [CHR 0x5C], subcomponent = ''&''\<rparr>"

section \<open>Properties\<close>

subsection \<open>Strings\<close>

lemma dropWhile_all: "list_all P s \<Longrightarrow> dropWhile P s = []"
  by (induction s) auto

lemma py_strip_blank: "list_all isspace s \<Longrightarrow> py_strip s = []"
  by (simp add: py_strip_def dropWhile_all)

lemma split_from_nonempty: "split_from sep cur s \<noteq> []"
  by (induction sep cur s rule: split_from.induct) (subst split_from.simps, simp)

lemma py_split_ok: "sep \<noteq> [] \<Longrightarrow> py_split sep s = Inr (split_from sep [] s)"
  by (simp add: py_split_def)

subsection \<open>Blank input\<close>

text \<open>
  C8. For every input string that is empty or consists only of whitespace, \<open>parse\<close>
  returns the empty list of results and raises no error, whatever the mode and whatever
  delimiters the tokenizer holds; so does the convenience function \<open>parse_hl7_message\<close>.
\<close>

theorem parse_blank_is_empty:
  assumes "list_all isspace content"
  shows "parse strict dl content = (Inr [], dl) \<and> parse_hl7_message content strict = Inr []"
  using assms by (simp add: parse_def parse_hl7_message_def py_strip_blank)

theorem parse_blank_is_empty_witness:
  "list_all isspace [] \<and> parse_hl7_message [] False = Inr []
   \<and> list_all isspace ''   '' \<and> parse_hl7_message ''   '' False = Inr []
   \<and> list_all isspace [CHR 0x0A, CHR 0x0A] \<and> parse_hl7_message [CHR 0x0A, CHR 0x0A] True = Inr []"
proof -
  have a: "list_all isspace []" by simp
  have b: "list_all isspace ''   ''" by (simp add: isspace_def code_def)
  have c: "list_all isspace [CHR 0x0A, CHR 0x0A]" by (simp add: isspace_def code_def)
  show ?thesis
    using a b c parse_blank_is_empty [OF a, of False default_delimiters]
      parse_blank_is_empty [OF b, of False default_delimiters]
      parse_blank_is_empty [OF c, of True default_delimiters]
    by simp
qed

subsection \<open>Delimiter validation\<close>

lemma check_each_ok:
  "check_each ds = Inr () \<longleftrightarrow> (\<forall>ch \<in> set (map snd ds). ch \<noteq> [] \<and> \<not> str_isalnum ch \<and> \<not> str_isspace ch)"
  by (induction ds rule: check_each.induct) auto

lemma check_each_err:
  "check_each ds \<noteq> Inr () \<Longrightarrow> \<exists>msg. check_each ds = Inl (MalformedSegmentError ''MSH'' msg)"
  by (induction ds rule: check_each.induct) (auto split: if_splits)

lemma check_conflicts_ok:
  "check_conflicts used ds = Inr () \<longleftrightarrow> (distinct (map snd ds) \<and> set (map snd ds) \<inter> used = {})"
  by (induction used ds rule: check_conflicts.induct) auto

lemma check_conflicts_err:
  "check_conflicts used ds \<noteq> Inr () \<Longrightarrow> \<exists>msg. check_conflicts used ds = Inl (MalformedSegmentError ''MSH'' msg)"
  by (induction used ds rule: check_conflicts.induct) (auto split: if_splits)

lemma validate_delimiters_cases:
  "validate_delimiters dl = Inr () \<or> (\<exists>msg. validate_delimiters dl = Inl (MalformedSegmentError ''MSH'' msg))"
  unfolding validate_delimiters_def
  using check_each_err [of "named_delimiters dl"] check_conflicts_err [of "{}" "named_delimiters dl"]
  by (cases "check_each (named_delimiters dl)") (auto simp: )

lemma validate_delimiters_ok_iff:
  "validate_delimiters dl = Inr () \<longleftrightarrow>
     (\<forall>ch \<in> set (map snd (named_delimiters dl)). ch \<noteq> [] \<and> \<not> str_isalnum ch \<and> \<not> str_isspace ch)
     \<and> distinct (map snd (named_delimiters dl))"
proof (cases "check_each (named_delimiters dl)")
  case (Inl e)
  then have "check_each (named_delimiters dl) \<noteq> Inr ()" by simp
  then have "\<not> (\<forall>ch \<in> set (map snd (named_delimiters dl)). ch \<noteq> [] \<and> \<not> str_isalnum ch \<and> \<not> str_isspace ch)"
    using check_each_ok [of "named_delimiters dl"] by blast
  moreover have "validate_delimiters dl \<noteq> Inr ()" using Inl by (simp add: validate_delimiters_def)
  ultimately show ?thesis by blast
next
  case (Inr u)
  then have "check_each (named_delimiters dl) = Inr ()" by simp
  then have "\<forall>ch \<in> set (map snd (named_delimiters dl)). ch \<noteq> [] \<and> \<not> str_isalnum ch \<and> \<not> str_isspace ch"
    using check_each_ok [of "named_delimiters dl"] by blast
  moreover have "validate_delimiters dl = Inr () \<longleftrightarrow> distinct (map snd (named_delimiters dl))"
    using Inr by (simp add: validate_delimiters_def check_conflicts_ok)
  ultimately show ?thesis by blast
qed

lemma validated_nonempty:
  assumes "validate_delimiters dl = Inr ()"
  shows "field dl \<noteq> [] \<and> component dl \<noteq> [] \<and> repetition dl \<noteq> [] \<and> subcomponent dl \<noteq> []"
  using assms by (simp add: validate_delimiters_ok_iff named_delimiters_def)

lemma parse_segment_total:
  "field dl \<noteq> [] \<Longrightarrow> \<exists>so. parse_segment dl raw = Inr so"
  by (auto simp: parse_segment_def parse_msh_segment_def py_split_def Let_def)

lemma parse_segments_total:
  "field dl \<noteq> [] \<Longrightarrow> \<exists>segs. parse_segments dl raws = Inr segs"
proof (induction raws)
  case Nil
  then show ?case by simp
next
  case (Cons raw raws)
  from Cons obtain segs where s: "parse_segments dl raws = Inr segs" by blast
  from Cons.prems obtain so where so: "parse_segment dl raw = Inr so"
    using parse_segment_total by blast
  show ?case by (simp add: s so)
qed

text \<open>
  C9. Delimiter validation fails with \<open>MalformedSegmentError\<close> exactly when the detected
  delimiters are illegal. For a message with at least one non-blank line whose detected
  delimiters are the five characters \<open>f\<close>, \<open>c\<close>, \<open>r\<close>, \<open>e\<close>, \<open>s\<close>: if the five are distinct and
  none is alphanumeric or whitespace, validation passes and tokenization returns segments;
  otherwise validation fails with a \<open>MalformedSegmentError\<close> on \<open>MSH\<close>, and tokenization raises
  that same error.
\<close>

theorem validate_delimiters_exact:
  assumes "raw_segments_of message_text \<noteq> []"
    and "detect_delimiters dl (raw_segments_of message_text)
           = \<lparr>field = [f], component = [c], repetition = [r], escape = [e], subcomponent = [s]\<rparr>"
  shows "if distinct [f, c, r, e, s] \<and> list_all (\<lambda>x. \<not> isalnum x \<and> \<not> isspace x) [f, c, r, e, s]
         then validate_delimiters \<lparr>field = [f], component = [c], repetition = [r], escape = [e], subcomponent = [s]\<rparr> = Inr ()
              \<and> (\<exists>segs. fst (tokenize dl message_text) = Inr segs)
         else (\<exists>msg. validate_delimiters \<lparr>field = [f], component = [c], repetition = [r], escape = [e], subcomponent = [s]\<rparr>
                        = Inl (MalformedSegmentError ''MSH'' msg)
                    \<and> fst (tokenize dl message_text) = Inl (MalformedSegmentError ''MSH'' msg))"
proof -
  let ?d = "\<lparr>field = [f], component = [c], repetition = [r], escape = [e], subcomponent = [s]\<rparr>"
  have iff: "validate_delimiters ?d = Inr () \<longleftrightarrow>
      distinct [f, c, r, e, s] \<and> list_all (\<lambda>x. \<not> isalnum x \<and> \<not> isspace x) [f, c, r, e, s]"
    by (simp add: validate_delimiters_ok_iff named_delimiters_def str_isalnum_def str_isspace_def) blast
  show ?thesis
  proof (cases "validate_delimiters ?d = Inr ()")
    case True
    have "field ?d \<noteq> []" by simp
    then obtain segs where "parse_segments ?d (raw_segments_of message_text) = Inr segs"
      using parse_segments_total by blast
    with True assms iff show ?thesis by (simp add: tokenize_def Let_def)
  next
    case False
    then obtain msg where m: "validate_delimiters ?d = Inl (MalformedSegmentError ''MSH'' msg)"
      using validate_delimiters_cases by blast
    with False assms iff show ?thesis by (simp add: tokenize_def Let_def)
  qed
qed


theorem validate_delimiters_exact_witness:
  "raw_segments_of (''MSH|^~'' @ [CHR 0x5C] @ ''&|TEST'') \<noteq> []
   \<and> detect_delimiters default_delimiters (raw_segments_of (''MSH|^~'' @ [CHR 0x5C] @ ''&|TEST''))
       = \<lparr>field = ''|'', component = ''^'', repetition = ''~'', escape = [CHR 0x5C], subcomponent = ''&''\<rparr>
   \<and> validate_delimiters \<lparr>field = ''|'', component = ''^'', repetition = ''~'', escape = [CHR 0x5C], subcomponent = ''&''\<rparr> = Inr ()
   \<and> (\<exists>segs. fst (tokenize default_delimiters (''MSH|^~'' @ [CHR 0x5C] @ ''&|TEST'')) = Inr segs)
   \<and> raw_segments_of (''MSH1^~'' @ [CHR 0x5C] @ ''&|'') \<noteq> []
   \<and> detect_delimiters default_delimiters (raw_segments_of (''MSH1^~'' @ [CHR 0x5C] @ ''&|''))
       = \<lparr>field = ''1'', component = ''^'', repetition = ''~'', escape = [CHR 0x5C], subcomponent = ''&''\<rparr>
   \<and> (\<exists>msg. fst (tokenize default_delimiters (''MSH1^~'' @ [CHR 0x5C] @ ''&|'')) = Inl (MalformedSegmentError ''MSH'' msg))
   \<and> raw_segments_of (''MSH|^^'' @ [CHR 0x5C] @ ''&|'') \<noteq> []
   \<and> detect_delimiters default_delimiters (raw_segments_of (''MSH|^^'' @ [CHR 0x5C] @ ''&|''))
       = \<lparr>field = ''|'', component = ''^'', repetition = ''^'', escape = [CHR 0x5C], subcomponent = ''&''\<rparr>
   \<and> (\<exists>msg. fst (tokenize default_delimiters (''MSH|^^'' @ [CHR 0x5C] @ ''&|'')) = Inl (MalformedSegmentError ''MSH'' msg))"
proof -
  have a1: "raw_segments_of (''MSH|^~'' @ [CHR 0x5C] @ ''&|TEST'') \<noteq> []" by code_simp
  have a2: "detect_delimiters default_delimiters (raw_segments_of (''MSH|^~'' @ [CHR 0x5C] @ ''&|TEST''))
       = \<lparr>field = ''|'', component = ''^'', repetition = ''~'', escape = [CHR 0x5C], subcomponent = ''&''\<rparr>"
    by code_simp
  have b1: "raw_segments_of (''MSH1^~'' @ [CHR 0x5C] @ ''&|'') \<noteq> []" by code_simp
  have b2: "detect_delimiters default_delimiters (raw_segments_of (''MSH1^~'' @ [CHR 0x5C] @ ''&|''))
       = \<lparr>field = ''1'', component = ''^'', repetition = ''~'', escape = [CHR 0x5C], subcomponent = ''&''\<rparr>"
    by code_simp
  have c1: "raw_segments_of (''MSH|^^'' @ [CHR 0x5C] @ ''&|'') \<noteq> []" by code_simp
  have c2: "detect_delimiters default_delimiters (raw_segments_of (''MSH|^^'' @ [CHR 0x5C] @ ''&|''))
       = \<lparr>field = ''|'', component = ''^'', repetition = ''^'', escape = [CHR 0x5C], subcomponent = ''&''\<rparr>"
    by code_simp
  have a: "validate_delimiters \<lparr>field = ''|'', component = ''^'', repetition = ''~'', escape = [CHR 0x5C], subcomponent = ''&''\<rparr> = Inr ()
     \<and> (\<exists>segs. fst (tokenize default_delimiters (''MSH|^~'' @ [CHR 0x5C] @ ''&|TEST'')) = Inr segs)"
    using validate_delimiters_exact [OF a1 a2] by (simp add: isalnum_def isspace_def code_def)
  have b: "\<exists>msg. fst (tokenize default_delimiters (''MSH1^~'' @ [CHR 0x5C] @ ''&|'')) = Inl (MalformedSegmentError ''MSH'' msg)"
    using validate_delimiters_exact [OF b1 b2] by (simp add: isalnum_def isspace_def code_def) blast
  have c: "\<exists>msg. fst (tokenize default_delimiters (''MSH|^^'' @ [CHR 0x5C] @ ''&|'')) = Inl (MalformedSegmentError ''MSH'' msg)"
    using validate_delimiters_exact [OF c1 c2] by simp blast
  from a1 a2 a b1 b2 b c1 c2 c show ?thesis by blast
qed

subsection \<open>Safe access into segments\<close>





subsection \<open>Fallback order of the extractors\<close>

text \<open>
  C7. The fallback order is fixed. For every scheduling segment in which the filler
  appointment id (field 2, component 0) and the placer appointment id (field 1,
  component 0) are both non-empty, the extracted appointment id is the filler id. For
  every provider/visit segment in which the attending field 7 and the admitting field 17
  both yield a non-empty identifier, the extracted provider is the attending one: its
  identifier, and its display name when there is one.
\<close>

theorem fallback_order:
  "(get_component sch 2 0 (component dl) [] = Inr filler \<and> filler \<noteq> []
      \<and> get_component sch 1 0 (component dl) [] = Inr placer \<and> placer \<noteq> []
     \<longrightarrow> extract_appointment_id dl sch = Inr filler)
   \<and> (extract_xcn_field dl pv1 7 = Inr (id7, name7) \<and> id7 \<noteq> []
      \<and> extract_xcn_field dl pv1 17 = Inr (id17, name17) \<and> id17 \<noteq> []
     \<longrightarrow> extract_provider dl pv1 = Inr (Some \<lparr>provider_id = id7, provider_name = or_none name7\<rparr>))"
  by (simp add: extract_appointment_id_def extract_provider_def)

theorem fallback_order_witness:
  "get_component example_sch 2 0 (component default_delimiters) [] = Inr ''AP456'' \<and> ''AP456'' \<noteq> []
   \<and> get_component example_sch 1 0 (component default_delimiters) [] = Inr ''PL123'' \<and> ''PL123'' \<noteq> []
   \<and> extract_appointment_id default_delimiters example_sch = Inr ''AP456''
   \<and> extract_xcn_field default_delimiters example_pv1 7 = Inr (''D67890'', ''Dr. Jane Smith'') \<and> ''D67890'' \<noteq> []
   \<and> extract_xcn_field default_delimiters example_pv1 17 = Inr (''A11111'', ''Amy Jones'') \<and> ''A11111'' \<noteq> []
   \<and> extract_provider default_delimiters example_pv1
        = Inr (Some \<lparr>provider_id = ''D67890'', provider_name = Some ''Dr. Jane Smith''\<rparr>)"
proof -
  have a: "get_component example_sch 2 0 (component default_delimiters) [] = Inr ''AP456''" by code_simp
  have b: "get_component example_sch 1 0 (component default_delimiters) [] = Inr ''PL123''" by code_simp
  have c: "extract_xcn_field default_delimiters example_pv1 7 = Inr (''D67890'', ''Dr. Jane Smith'')" by code_simp
  have d: "extract_xcn_field default_delimiters example_pv1 17 = Inr (''A11111'', ''Amy Jones'')" by code_simp
  have n: "or_none ''Dr. Jane Smith'' = Some ''Dr. Jane Smith''" by (simp add: or_none_def)
  show ?thesis
    using a b c d n
      fallback_order [of example_sch default_delimiters "''AP456''" "''PL123''" example_pv1
        "''D67890''" "''Dr. Jane Smith''" "''A11111''" "''Amy Jones''"]
    by simp
qed

subsection \<open>Serialization of an empty appointment id\<close>

text \<open>
  C10. \<open>Appointment.to_dict\<close> has no key \<open>appointment_id\<close> whenever the appointment id is
  the empty string. A scheduling segment with neither a filler nor a placer id gives the
  empty appointment id, so the result that \<open>_parse_single_message\<close> builds from a message
  with such a segment has an output record with no \<open>appointment_id\<close> field at all.
\<close>

theorem appointment_id_omitted:
  "(appointment_id a = [] \<longrightarrow> ''appointment_id'' \<notin> fst ` set (appointment_to_dict a))
   \<and> (get_component sch 2 0 (component dl) [] = Inr []
        \<and> get_component sch 1 0 (component dl) [] = Inr []
       \<longrightarrow> extract_appointment_id dl sch = Inr []
           \<and> (segment_map ''SCH'' = Some sch \<and> extract_message strict dl segment_map idx = Inr r
                \<longrightarrow> appointment_id (result_appointment r) = []
                    \<and> ''appointment_id'' \<notin> fst ` set (appointment_to_dict (result_appointment r))))"
proof -
  have A: "\<And>a. appointment_id a = [] \<Longrightarrow> ''appointment_id'' \<notin> fst ` set (appointment_to_dict a)"
    by (auto simp: appointment_to_dict_def truthy_entry_def split: option.splits if_splits)
  have E: "extract_appointment_id dl sch = Inr []"
    if "get_component sch 2 0 (component dl) [] = Inr []"
      "get_component sch 1 0 (component dl) [] = Inr []"
    using that by (simp add: extract_appointment_id_def)
  have B: "appointment_id (result_appointment r) = []"
    if "segment_map ''SCH'' = Some sch" "extract_appointment_id dl sch = Inr []"
      "extract_message strict dl segment_map idx = Inr r"
    using that
    by (auto simp: extract_message_def sch_step_def split: sum.splits prod.splits)
  show ?thesis using A E B by blast
qed

theorem appointment_id_omitted_witness:
  "parse_hl7_message example_no_id_message False = Inr [example_no_id_result]
   \<and> tokenize default_delimiters example_no_id_message
        = (Inr [example_msh, example_sch_no_id], default_delimiters)
   \<and> build_segment_map [example_msh, example_sch_no_id] ''SCH'' = Some example_sch_no_id
   \<and> get_component example_sch_no_id 2 0 (component default_delimiters) [] = Inr []
   \<and> get_component example_sch_no_id 1 0 (component default_delimiters) [] = Inr []
   \<and> extract_message False default_delimiters (build_segment_map [example_msh, example_sch_no_id]) 0
        = Inr example_no_id_result
   \<and> appointment_id (result_appointment example_no_id_result) = []
   \<and> ''appointment_id'' \<notin> fst ` set (appointment_to_dict (result_appointment example_no_id_result))
   \<and> appointment_to_dict (result_appointment example_no_id_result)
        = [(''reason'', JStr ''CHECKUP''), (''message_control_id'', JStr ''1''),
           (''message_datetime'', JStr ''2025-05-02'')]"
proof -
  have p: "parse_hl7_message example_no_id_message False = Inr [example_no_id_result]" by code_simp
  have t: "tokenize default_delimiters example_no_id_message
        = (Inr [example_msh, example_sch_no_id], default_delimiters)" by code_simp
  have m: "build_segment_map [example_msh, example_sch_no_id] ''SCH'' = Some example_sch_no_id" by code_simp
  have f: "get_component example_sch_no_id 2 0 (component default_delimiters) [] = Inr []" by code_simp
  have g: "get_component example_sch_no_id 1 0 (component default_delimiters) [] = Inr []" by code_simp
  have e: "extract_message False default_delimiters (build_segment_map [example_msh, example_sch_no_id]) 0
        = Inr example_no_id_result" by code_simp
  have d: "appointment_to_dict (result_appointment example_no_id_result)
        = [(''reason'', JStr ''CHECKUP''), (''message_control_id'', JStr ''1''),
           (''message_datetime'', JStr ''2025-05-02'')]" by code_simp
  from appointment_id_omitted
         [of "result_appointment example_no_id_result" example_sch_no_id default_delimiters
            "build_segment_map [example_msh, example_sch_no_id]" False 0 example_no_id_result] m f g e
  have "appointment_id (result_appointment example_no_id_result) = []
     \<and> ''appointment_id'' \<notin> fst ` set (appointment_to_dict (result_appointment example_no_id_result))"
    by blast
  with p t m f g e d show ?thesis by blast
qed

subsection \<open>Delimiters across the messages of one input\<close>

text \<open>
  C3 says that a message parsed as one of several gives the same delimiters and the same
  outcome as the message parsed alone, and that a header too short to declare its
  delimiters gets the defaults. The code keeps one tokenizer for all messages of a parser
  and never resets its delimiters, so a short header inherits what the message before it
  declared. The input below has two messages: the first declares the field separator
  \<open>#\<close> and the component separator \<open>|\<close>, the second is the six characters \<open>MSH|^~\<close>. Alone,
  the second message is tokenized with the field separator \<open>|\<close> and the defaults, and is
  refused for its message type. After the first message it meets the carried component
  separator \<open>|\<close>, and is refused for conflicting delimiters.
\<close>

theorem delimiters_carried_over:
  "split_hl7_messages (example_hash_message @ [CHR 0x0A] @ example_short_header)
     = [example_hash_message, example_short_header]
   \<and> parse False default_delimiters example_short_header
     = (Inl (InvalidMessageTypeError ''SIU^S12'' []), default_delimiters)
   \<and> (\<exists>r. parse False default_delimiters example_hash_message = (Inr [r], example_hash_delimiters))
   \<and> parse_single_message False example_hash_delimiters example_short_header 1
     = (Inl (MalformedSegmentError ''MSH'' (conflicting_delimiter_msg ''|'')), example_carried_delimiters)
   \<and> parse False default_delimiters (example_hash_message @ [CHR 0x0A] @ example_short_header)
     = (Inl (MalformedSegmentError ''MSH'' (conflicting_delimiter_msg ''|'')), example_carried_delimiters)"
proof -
  have a: "split_hl7_messages (example_hash_message @ [CHR 0x0A] @ example_short_header)
     = [example_hash_message, example_short_header]" by code_simp
  have b: "parse False default_delimiters example_short_header
     = (Inl (InvalidMessageTypeError ''SIU^S12'' []), default_delimiters)" by code_simp
  have c: "(case parse False default_delimiters example_hash_message of
             (Inr [r], d) \<Rightarrow> d = example_hash_delimiters | _ \<Rightarrow> False)" by code_simp
  have c': "\<exists>r. parse False default_delimiters example_hash_message = (Inr [r], example_hash_delimiters)"
    using c by (auto split: prod.splits sum.splits list.splits)
  have d: "parse_single_message False example_hash_delimiters example_short_header 1
     = (Inl (MalformedSegmentError ''MSH'' (conflicting_delimiter_msg ''|'')), example_carried_delimiters)"
    by code_simp
  have e: "parse False default_delimiters (example_hash_message @ [CHR 0x0A] @ example_short_header)
     = (Inl (MalformedSegmentError ''MSH'' (conflicting_delimiter_msg ''|'')), example_carried_delimiters)"
    by code_simp
  from a b c' d e show ?thesis by blast
qed

subsection \<open>Message type validation\<close>

text \<open>
  C5, as the code has it. For every message that the tokenizer accepts and whose header
  segment has at least three fields and a non-empty encoding field: if the header declares
  a message type other than \<open>SIU\<close>, or a present trigger event other than \<open>S12\<close>, parsing
  raises \<open>InvalidMessageTypeError\<close> in both modes, with the expected text \<open>SIU^S12\<close> and the
  actual text \<open>TYPE^TRIGGER\<close> (the type alone when no trigger is present). The header
  \<open>ADT^A01\<close> of the test suite is the witness.
\<close>

theorem invalid_message_type_raised:
  assumes "tokenize dl message_text = (Inr segs, dl')"
    and "build_segment_map segs ''MSH'' = Some msh"
    and "3 \<le> length (seg_fields msh)" and "seg_fields msh ! 2 \<noteq> []"
    and "extract_message_type dl' msh = Inr (mt, te)"
    and "mt \<noteq> ''SIU'' \<or> (te \<noteq> [] \<and> te \<noteq> ''S12'')"
  shows "parse_single_message strict dl message_text idx
           = (Inl (InvalidMessageTypeError ''SIU^S12'' (if te \<noteq> [] then mt @ ''^'' @ te else mt)), dl')"
proof -
  have ne: "segs \<noteq> []" using assms(2) by (auto simp: build_segment_map_def)
  have v: "validate_message_type dl' (build_segment_map segs)
             = Inl (InvalidMessageTypeError ''SIU^S12'' (if te \<noteq> [] then mt @ ''^'' @ te else mt))"
    using assms(2-6)
    by (auto simp: validate_message_type_def EXPECTED_MESSAGE_TYPE_def EXPECTED_TRIGGER_EVENT_def Let_def)
  show ?thesis
    using assms(1) ne v by (simp add: parse_single_message_def parse_tokenized_def)
qed

theorem invalid_message_type_raised_witness:
  "tokenize default_delimiters example_adt_message = (Inr [example_adt_msh, example_adt_pid], default_delimiters)
   \<and> build_segment_map [example_adt_msh, example_adt_pid] ''MSH'' = Some example_adt_msh
   \<and> 3 \<le> length (seg_fields example_adt_msh) \<and> seg_fields example_adt_msh ! 2 \<noteq> []
   \<and> extract_message_type default_delimiters example_adt_msh = Inr (''ADT'', ''A01'')
   \<and> ''ADT'' \<noteq> ''SIU''
   \<and> parse_single_message False default_delimiters example_adt_message 0
        = (Inl (InvalidMessageTypeError ''SIU^S12'' ''ADT^A01''), default_delimiters)
   \<and> parse_single_message True default_delimiters example_adt_message 0
        = (Inl (InvalidMessageTypeError ''SIU^S12'' ''ADT^A01''), default_delimiters)
   \<and> parse_hl7_message example_adt_message False = Inl (InvalidMessageTypeError ''SIU^S12'' ''ADT^A01'')
   \<and> parse_hl7_message example_s14_message False = Inl (InvalidMessageTypeError ''SIU^S12'' ''SIU^S14'')"
proof -
  have t: "tokenize default_delimiters example_adt_message
             = (Inr [example_adt_msh, example_adt_pid], default_delimiters)" by code_simp
  have m: "build_segment_map [example_adt_msh, example_adt_pid] ''MSH'' = Some example_adt_msh" by code_simp
  have l: "3 \<le> length (seg_fields example_adt_msh)" by code_simp
  have n: "seg_fields example_adt_msh ! 2 \<noteq> []" by code_simp
  have x: "extract_message_type default_delimiters example_adt_msh = Inr (''ADT'', ''A01'')" by code_simp
  have y: "''ADT'' \<noteq> ''SIU'' \<or> (''A01'' \<noteq> [] \<and> ''A01'' \<noteq> ''S12'')" by simp
  have p: "parse_hl7_message example_adt_message False = Inl (InvalidMessageTypeError ''SIU^S12'' ''ADT^A01'')"
    by code_simp
  have q: "parse_hl7_message example_s14_message False = Inl (InvalidMessageTypeError ''SIU^S12'' ''SIU^S14'')"
    by code_simp
  have r1: "parse_single_message False default_delimiters example_adt_message 0
        = (Inl (InvalidMessageTypeError ''SIU^S12'' ''ADT^A01''), default_delimiters)"
    using invalid_message_type_raised [OF t m l n x y, of False 0] by simp
  have r2: "parse_single_message True default_delimiters example_adt_message 0
        = (Inl (InvalidMessageTypeError ''SIU^S12'' ''ADT^A01''), default_delimiters)"
    using invalid_message_type_raised [OF t m l n x y, of True 0] by simp
  have z: "''ADT'' \<noteq> ''SIU''" by simp
  from t m l n x z r1 r2 p q show ?thesis by blast
qed

text \<open>
  C5 as stated fails on a header that declares \<open>ADT^A01\<close> with illegal delimiters (the
  component separator used again as the subcomponent separator): the structural check of
  the tokenizer comes first and raises \<open>MalformedSegmentError\<close>.
\<close>

theorem invalid_message_type_counterexample:
  "map_sum id (\<lambda>sg. get_field sg 9 [])
       (parse_msh_segment default_delimiters (hd (raw_segments_of example_adt_conflict_message)))
     = Inr ''ADT^A01''
   \<and> parse_hl7_message example_adt_conflict_message False
     = Inl (MalformedSegmentError ''MSH'' (conflicting_delimiter_msg ''^''))
   \<and> parse_hl7_message example_adt_conflict_message False
     \<noteq> Inl (InvalidMessageTypeError ''SIU^S12'' ''ADT^A01'')"
  by code_simp

subsection \<open>Missing segments\<close>

text \<open>
  With delimiters that passed validation no extractor raises: every separator they split
  on is non-empty.
\<close>

lemma sch_extractors_total:
  assumes "component dl \<noteq> []"
  shows "\<exists>a. extract_appointment_id dl seg = Inr a"
    and "\<exists>d. extract_appointment_datetime dl seg = Inr d"
    and "\<exists>r. extract_reason dl seg = Inr r"
    and "\<exists>l. sch_extract_location dl seg = Inr l"
proof -
  show "\<exists>a. extract_appointment_id dl seg = Inr a"
    using assms
    by (simp add: extract_appointment_id_def get_component_def py_split_def Let_def)
  show "\<exists>d. extract_appointment_datetime dl seg = Inr d"
    using assms
    by (simp add: extract_appointment_datetime_def py_split_def Let_def split: option.splits)
  show "\<exists>r. extract_reason dl seg = Inr r"
    using assms by (simp add: extract_reason_def py_split_def Let_def)
  show "\<exists>l. sch_extract_location dl seg = Inr l"
    using assms by (simp add: sch_extract_location_def py_split_def Let_def)
qed

lemma extract_patient_total:
  assumes "component dl \<noteq> []" "repetition dl \<noteq> []" "subcomponent dl \<noteq> []"
  shows "\<exists>p. extract_patient dl seg = Inr p"
  using assms
  by (simp add: extract_patient_def extract_patient_id_def extract_name_def py_split_def Let_def)

lemma pv1_extractors_total:
  assumes "component dl \<noteq> []" "repetition dl \<noteq> []"
  shows "\<exists>p. extract_provider dl seg = Inr p"
    and "\<exists>l. pv1_extract_location dl seg = Inr l"
proof -
  have x: "\<exists>p. extract_xcn_field dl seg i = Inr p" for i
    using assms by (simp add: extract_xcn_field_def py_split_def Let_def)
  obtain p7 where p7: "extract_xcn_field dl seg 7 = Inr p7" using x by blast
  obtain p17 where p17: "extract_xcn_field dl seg 17 = Inr p17" using x by blast
  obtain p8 where p8: "extract_xcn_field dl seg 8 = Inr p8" using x by blast
  show "\<exists>p. extract_provider dl seg = Inr p"
    by (cases p7; cases p17; cases p8) (simp add: extract_provider_def p7 p17 p8)
  show "\<exists>l. pv1_extract_location dl seg = Inr l"
    using assms by (simp add: pv1_extract_location_def py_split_def Let_def)
qed


lemma validated_seps:
  assumes "validate_delimiters dl = Inr ()"
  shows "component dl \<noteq> []" "repetition dl \<noteq> []" "subcomponent dl \<noteq> []"
  using validated_nonempty [OF assms] by simp_all

lemma sch_step_cases:
  assumes "component dl \<noteq> []"
  shows "(M ''SCH'' = None \<and> strict \<and> sch_step strict dl M = Inl (MissingSegmentError ''SCH''))
       \<or> (M ''SCH'' = None \<and> \<not> strict \<and> sch_step strict dl M = Inr (''UNKNOWN'', None, [], [], [sch_warning]))
       \<or> (\<exists>sg aid adt rsn loc. M ''SCH'' = Some sg \<and> sch_step strict dl M = Inr (aid, adt, rsn, loc, []))"
proof (cases "M ''SCH''")
  case None
  then show ?thesis by (simp add: sch_step_def)
next
  case (Some sg)
  obtain aid adt rsn loc where
    "extract_appointment_id dl sg = Inr aid" "extract_appointment_datetime dl sg = Inr adt"
    "extract_reason dl sg = Inr rsn" "sch_extract_location dl sg = Inr loc"
    using sch_extractors_total [OF assms, of sg] by blast
  with Some show ?thesis by (simp add: sch_step_def)
qed

lemma pid_step_cases:
  assumes "component dl \<noteq> []" "repetition dl \<noteq> []" "subcomponent dl \<noteq> []"
  shows "(M ''PID'' = None \<and> strict \<and> pid_step strict dl M ws = Inl (MissingSegmentError ''PID''))
       \<or> (M ''PID'' = None \<and> \<not> strict \<and> pid_step strict dl M ws = Inr (None, ws @ [pid_warning]))
       \<or> (\<exists>sg p. M ''PID'' = Some sg \<and> pid_step strict dl M ws = Inr (Some p, ws))"
proof (cases "M ''PID''")
  case None
  then show ?thesis by (simp add: pid_step_def)
next
  case (Some sg)
  obtain p where "extract_patient dl sg = Inr p"
    using extract_patient_total [OF assms, of sg] by blast
  with Some show ?thesis by (simp add: pid_step_def)
qed

lemma pv1_step_cases:
  assumes "component dl \<noteq> []" "repetition dl \<noteq> []"
  shows "(M ''PV1'' = None \<and> pv1_step dl M loc ws = Inr (None, loc, ws @ [pv1_warning]))
       \<or> (\<exists>sg prov loc'. M ''PV1'' = Some sg \<and> pv1_step dl M loc ws = Inr (prov, loc', ws))"
proof (cases "M ''PV1''")
  case None
  then show ?thesis by (simp add: pv1_step_def)
next
  case (Some sg)
  obtain prov l where "extract_provider dl sg = Inr prov" "pv1_extract_location dl sg = Inr l"
    using pv1_extractors_total [OF assms, of sg] by blast
  with Some show ?thesis by (simp add: pv1_step_def)
qed

text \<open>The outcome of the extraction, by the segments that are there.\<close>

lemma extract_message_outcome:
  assumes "validate_delimiters dl = Inr ()"
  shows "(strict \<and> M ''SCH'' = None \<and> extract_message strict dl M idx = Inl (MissingSegmentError ''SCH''))
       \<or> (strict \<and> M ''SCH'' \<noteq> None \<and> M ''PID'' = None
            \<and> extract_message strict dl M idx = Inl (MissingSegmentError ''PID''))
       \<or> (\<exists>r. extract_message strict dl M idx = Inr r
            \<and> (strict \<longrightarrow> M ''SCH'' \<noteq> None \<and> M ''PID'' \<noteq> None)
            \<and> (M ''SCH'' = None \<longrightarrow> appointment_id (result_appointment r) = ''UNKNOWN''
                                    \<and> sch_warning \<in> set (warnings r))
            \<and> (M ''PID'' = None \<longrightarrow> appt_patient (result_appointment r) = None
                                    \<and> pid_warning \<in> set (warnings r))
            \<and> (M ''PV1'' = None \<longrightarrow> appt_provider (result_appointment r) = None
                                    \<and> pv1_warning \<in> set (warnings r)))"
proof -
  note s = validated_seps [OF assms]
  consider
      (a) "M ''SCH'' = None" "strict" "sch_step strict dl M = Inl (MissingSegmentError ''SCH'')"
    | (b) "M ''SCH'' = None" "\<not> strict" "sch_step strict dl M = Inr (''UNKNOWN'', None, [], [], [sch_warning])"
    | (c) sg aid adt rsn loc where "M ''SCH'' = Some sg" "sch_step strict dl M = Inr (aid, adt, rsn, loc, [])"
    using sch_step_cases [OF s(1), of M strict] by (elim disjE exE conjE) auto
  then show ?thesis
  proof cases
    case a
    then show ?thesis by (simp add: extract_message_def)
  next
    case b
    from b(2) pid_step_cases [OF s, of M strict "[sch_warning]"]
    consider
        (b1) "M ''PID'' = None" "pid_step strict dl M [sch_warning] = Inr (None, [sch_warning] @ [pid_warning])"
      | (b2) sg p where "M ''PID'' = Some sg" "pid_step strict dl M [sch_warning] = Inr (Some p, [sch_warning])"
      by (elim disjE exE conjE) auto
    then show ?thesis
    proof cases
      case b1
      from pv1_step_cases [OF s(1,2), of M "[]" "[sch_warning] @ [pid_warning]"]
      show ?thesis using b b1 by (auto simp: extract_message_def)
    next
      case b2
      from pv1_step_cases [OF s(1,2), of M "[]" "[sch_warning]"]
      show ?thesis using b b2 by (auto simp: extract_message_def)
    qed
  next
    case c
    from pid_step_cases [OF s, of M strict "[]"]
    consider
        (c0) "M ''PID'' = None" "strict" "pid_step strict dl M [] = Inl (MissingSegmentError ''PID'')"
      | (c1) "M ''PID'' = None" "\<not> strict" "pid_step strict dl M [] = Inr (None, [] @ [pid_warning])"
      | (c2) sg' p where "M ''PID'' = Some sg'" "pid_step strict dl M [] = Inr (Some p, [])"
      by (elim disjE exE conjE) auto
    then show ?thesis
    proof cases
      case c0
      with c show ?thesis by (simp add: extract_message_def)
    next
      case c1
      from pv1_step_cases [OF s(1,2), of M loc "[] @ [pid_warning]"]
      show ?thesis using c c1 by (auto simp: extract_message_def)
    next
      case c2
      from pv1_step_cases [OF s(1,2), of M loc "[]"]
      show ?thesis using c c2 by (auto simp: extract_message_def)
    qed
  qed
qed

text \<open>
  C4, as the code has it. For every tokenized message whose delimiters and whose header
  passed validation: a missing \<open>SCH\<close> segment raises \<open>MissingSegmentError("SCH")\<close> in strict
  mode, and in lenient mode gives a result with the appointment id \<open>UNKNOWN\<close> and a warning;
  a missing \<open>PID\<close> segment raises \<open>MissingSegmentError("PID")\<close> in strict mode when the \<open>SCH\<close>
  segment is there (the check of \<open>SCH\<close> comes first), and in lenient mode gives a result
  with no patient and a warning; a missing \<open>PV1\<close> segment never raises: lenient mode gives a
  result with no provider and a warning, so does strict mode when \<open>SCH\<close> and \<open>PID\<close> are there,
  and the only errors of strict mode are those of a missing \<open>SCH\<close> or \<open>PID\<close>.
\<close>

theorem missing_segments:
  assumes "validate_delimiters dl = Inr ()"
    and "validate_message_type dl (build_segment_map segs) = Inr ()"
  shows "(build_segment_map segs ''SCH'' = None \<longrightarrow>
            parse_tokenized True dl segs idx = Inl (MissingSegmentError ''SCH'')
            \<and> (\<exists>r. parse_tokenized False dl segs idx = Inr r
                  \<and> appointment_id (result_appointment r) = ''UNKNOWN''
                  \<and> sch_warning \<in> set (warnings r)))
       \<and> (build_segment_map segs ''PID'' = None \<longrightarrow>
            (build_segment_map segs ''SCH'' \<noteq> None \<longrightarrow>
               parse_tokenized True dl segs idx = Inl (MissingSegmentError ''PID''))
            \<and> (\<exists>r. parse_tokenized False dl segs idx = Inr r
                  \<and> appt_patient (result_appointment r) = None
                  \<and> pid_warning \<in> set (warnings r)))
       \<and> (build_segment_map segs ''PV1'' = None \<longrightarrow>
            (\<exists>r. parse_tokenized False dl segs idx = Inr r
                  \<and> appt_provider (result_appointment r) = None
                  \<and> pv1_warning \<in> set (warnings r))
            \<and> (build_segment_map segs ''SCH'' \<noteq> None \<and> build_segment_map segs ''PID'' \<noteq> None \<longrightarrow>
                 (\<exists>r. parse_tokenized True dl segs idx = Inr r
                       \<and> appt_provider (result_appointment r) = None
                       \<and> pv1_warning \<in> set (warnings r)))
            \<and> (\<forall>e. parse_tokenized True dl segs idx = Inl e \<longrightarrow>
                   (build_segment_map segs ''SCH'' = None \<and> e = MissingSegmentError ''SCH'')
                   \<or> (build_segment_map segs ''SCH'' \<noteq> None \<and> build_segment_map segs ''PID'' = None
                        \<and> e = MissingSegmentError ''PID'')))"
proof -
  let ?M = "build_segment_map segs"
  have ne: "segs \<noteq> []"
    using assms(2) by (auto simp: validate_message_type_def build_segment_map_def)
  have eq: "parse_tokenized strict dl segs idx = extract_message strict dl ?M idx" for strict
    using ne assms(2) by (simp add: parse_tokenized_def)
  note T = extract_message_outcome [OF assms(1), of True ?M idx, folded eq]
  note F = extract_message_outcome [OF assms(1), of False ?M idx, folded eq]
  have 1: "?M ''SCH'' = None \<longrightarrow>
            parse_tokenized True dl segs idx = Inl (MissingSegmentError ''SCH'')
            \<and> (\<exists>r. parse_tokenized False dl segs idx = Inr r
                  \<and> appointment_id (result_appointment r) = ''UNKNOWN''
                  \<and> sch_warning \<in> set (warnings r))"
    using T F by auto
  have 2: "?M ''PID'' = None \<longrightarrow>
            (?M ''SCH'' \<noteq> None \<longrightarrow>
               parse_tokenized True dl segs idx = Inl (MissingSegmentError ''PID''))
            \<and> (\<exists>r. parse_tokenized False dl segs idx = Inr r
                  \<and> appt_patient (result_appointment r) = None
                  \<and> pid_warning \<in> set (warnings r))"
    using T F by auto
  have 3: "?M ''PV1'' = None \<longrightarrow>
            (\<exists>r. parse_tokenized False dl segs idx = Inr r
                  \<and> appt_provider (result_appointment r) = None
                  \<and> pv1_warning \<in> set (warnings r))
            \<and> (?M ''SCH'' \<noteq> None \<and> ?M ''PID'' \<noteq> None \<longrightarrow>
                 (\<exists>r. parse_tokenized True dl segs idx = Inr r
                       \<and> appt_provider (result_appointment r) = None
                       \<and> pv1_warning \<in> set (warnings r)))
            \<and> (\<forall>e. parse_tokenized True dl segs idx = Inl e \<longrightarrow>
                   (?M ''SCH'' = None \<and> e = MissingSegmentError ''SCH'')
                   \<or> (?M ''SCH'' \<noteq> None \<and> ?M ''PID'' = None
                        \<and> e = MissingSegmentError ''PID''))"
    using T F by auto
  from 1 2 3 show ?thesis by blast
qed

theorem missing_segments_witness:
  "validate_delimiters default_delimiters = Inr ()
   \<and> validate_message_type default_delimiters (build_segment_map [example_msh]) = Inr ()
   \<and> build_segment_map [example_msh] ''SCH'' = None
   \<and> build_segment_map [example_msh] ''PID'' = None
   \<and> build_segment_map [example_msh] ''PV1'' = None
   \<and> parse_tokenized True default_delimiters [example_msh] 0 = Inl (MissingSegmentError ''SCH'')
   \<and> (\<exists>r. parse_tokenized False default_delimiters [example_msh] 0 = Inr r
         \<and> appointment_id (result_appointment r) = ''UNKNOWN'' \<and> sch_warning \<in> set (warnings r))
   \<and> (\<exists>r. parse_tokenized False default_delimiters [example_msh] 0 = Inr r
         \<and> appt_patient (result_appointment r) = None \<and> pid_warning \<in> set (warnings r))
   \<and> (\<exists>r. parse_tokenized False default_delimiters [example_msh] 0 = Inr r
         \<and> appt_provider (result_appointment r) = None \<and> pv1_warning \<in> set (warnings r))
   \<and> validate_message_type default_delimiters (build_segment_map [example_msh, example_sch_no_id]) = Inr ()
   \<and> build_segment_map [example_msh, example_sch_no_id] ''SCH'' \<noteq> None
   \<and> build_segment_map [example_msh, example_sch_no_id] ''PID'' = None
   \<and> parse_tokenized True default_delimiters [example_msh, example_sch_no_id] 0
        = Inl (MissingSegmentError ''PID'')
   \<and> validate_message_type default_delimiters (build_segment_map [example_msh, example_sch, example_adt_pid]) = Inr ()
   \<and> build_segment_map [example_msh, example_sch, example_adt_pid] ''SCH'' \<noteq> None
   \<and> build_segment_map [example_msh, example_sch, example_adt_pid] ''PID'' \<noteq> None
   \<and> build_segment_map [example_msh, example_sch, example_adt_pid] ''PV1'' = None
   \<and> (\<exists>r. parse_tokenized True default_delimiters [example_msh, example_sch, example_adt_pid] 0 = Inr r
         \<and> appt_provider (result_appointment r) = None \<and> pv1_warning \<in> set (warnings r))"
proof -
  have v: "validate_delimiters default_delimiters = Inr ()" by code_simp
  have a0: "validate_message_type default_delimiters (build_segment_map [example_msh]) = Inr ()"
    by code_simp
  have a1: "build_segment_map [example_msh] ''SCH'' = None" by code_simp
  have a2: "build_segment_map [example_msh] ''PID'' = None" by code_simp
  have a3: "build_segment_map [example_msh] ''PV1'' = None" by code_simp
  have b0: "validate_message_type default_delimiters (build_segment_map [example_msh, example_sch_no_id]) = Inr ()"
    by code_simp
  have b1: "build_segment_map [example_msh, example_sch_no_id] ''SCH'' \<noteq> None" by code_simp
  have b2: "build_segment_map [example_msh, example_sch_no_id] ''PID'' = None" by code_simp
  have c0: "validate_message_type default_delimiters (build_segment_map [example_msh, example_sch, example_adt_pid]) = Inr ()"
    by code_simp
  have c1: "build_segment_map [example_msh, example_sch, example_adt_pid] ''SCH'' \<noteq> None" by code_simp
  have c2: "build_segment_map [example_msh, example_sch, example_adt_pid] ''PID'' \<noteq> None" by code_simp
  have c3: "build_segment_map [example_msh, example_sch, example_adt_pid] ''PV1'' = None" by code_simp
  note ma = missing_segments [OF v a0, of 0]
  note mb = missing_segments [OF v b0, of 0]
  note mc = missing_segments [OF v c0, of 0]
  note A1 = mp [OF conjunct1 [OF ma] a1]
  note A2 = mp [OF conjunct1 [OF conjunct2 [OF ma]] a2]
  note A3 = mp [OF conjunct2 [OF conjunct2 [OF ma]] a3]
  note B = mp [OF conjunct1 [OF mp [OF conjunct1 [OF conjunct2 [OF mb]] b2]] b1]
  note C = mp [OF conjunct1 [OF conjunct2 [OF mp [OF conjunct2 [OF conjunct2 [OF mc]] c3]]] conjI [OF c1 c2]]
  show ?thesis
    apply (intro conjI)
    apply (rule v a0 a1 a2 a3 b0 b1 b2 c0 c1 c2 c3 B C conjunct1 [OF A1] conjunct2 [OF A1]
        conjunct2 [OF A2] conjunct1 [OF A3])+
    done
qed

text \<open>
  C4 as stated fails on a message that misses both \<open>SCH\<close> and \<open>PID\<close>: in strict mode the
  missing \<open>PID\<close> segment does not raise \<open>MissingSegmentError("PID")\<close>, the check of \<open>SCH\<close> has
  raised before.
\<close>

theorem missing_pid_strict_counterexample:
  "tokenize default_delimiters example_header_only_message = (Inr [example_msh], default_delimiters)
   \<and> build_segment_map [example_msh] ''PID'' = None
   \<and> parse_hl7_message example_header_only_message True = Inl (MissingSegmentError ''SCH'')
   \<and> parse_hl7_message example_header_only_message True \<noteq> Inl (MissingSegmentError ''PID'')"
  by code_simp

subsection \<open>Timestamps\<close>

text \<open>Decimal numerals: \<open>int\<close> and the format \<open>:0wd\<close> are inverse on \<open>w\<close> digits.\<close>

lemma isdigit_not_special:
  "isdigit c \<Longrightarrow> c \<noteq> CHR ''+'' \<and> c \<noteq> CHR ''-'' \<and> c \<noteq> CHR ''.'' \<and> \<not> isspace c"
  by (auto simp: isdigit_def isspace_def code_def)

lemma digit_chr_dval: "isdigit c \<Longrightarrow> digit_chr (dval c) = c"
  by (simp add: isdigit_def digit_chr_def dval_def code_def)

lemma digit_chr_zero: "digit_chr 0 = CHR ''0''"
proof -
  have "(48::nat) = of_char (CHR ''0'')" by simp
  then show ?thesis by (simp only: digit_chr_def add_0_right char_of_char)
qed

lemma digits_of_small: "v < 10 \<Longrightarrow> digits_of v = [digit_chr v]"
  by (subst digits_of.simps) simp

lemma dval_less: "isdigit c \<Longrightarrow> dval c < 10"
  by (auto simp: isdigit_def dval_def)

lemma pnat_snoc: "pnat (s @ [c]) = 10 * pnat s + dval c"
  by (simp add: pnat_def)

lemma digits_of_step:
  assumes "v < 10"
  shows "digits_of (10 * k + v) = (if k = 0 then [digit_chr v] else digits_of k @ [digit_chr v])"
  using assms by (subst digits_of.simps) auto

lemma pnat_zero_replicate:
  "list_all isdigit s \<Longrightarrow> pnat s = 0 \<Longrightarrow> s = replicate (length s) (CHR ''0'')"
proof (induction s rule: rev_induct)
  case Nil
  then show ?case by simp
next
  case (snoc c s)
  then have z: "pnat s = 0" "dval c = 0" by (simp_all add: pnat_snoc)
  from snoc.prems have dc: "isdigit c" by simp
  from digit_chr_dval [OF dc] z(2) have c0: "c = CHR ''0''" by (simp add: digit_chr_zero)
  from snoc z have r: "s = replicate (length s) (CHR ''0'')" by simp
  have "replicate (length (s @ [c])) (CHR ''0'') = replicate (length s) (CHR ''0'') @ [CHR ''0'']"
    by (simp add: replicate_append_same)
  also have "\<dots> = s @ [c]" by (subst r [symmetric]) (simp add: c0)
  finally show ?case by simp
qed

lemma length_digits_of_pnat: "list_all isdigit s \<Longrightarrow> s \<noteq> [] \<Longrightarrow> length (digits_of (pnat s)) \<le> length s"
proof (induction s rule: rev_induct)
  case Nil
  then show ?case by simp
next
  case (snoc c s)
  from snoc.prems have dc: "isdigit c" by simp
  show ?case
  proof (cases "s = []")
    case True
    then show ?thesis using dval_less [OF dc] by (simp add: pnat_def digits_of.simps [of "dval c"])
  next
    case False
    with snoc have "length (digits_of (pnat s)) \<le> length s" by simp
    then show ?thesis
      using dval_less [OF dc]
      by (simp add: pnat_snoc digits_of_step)
  qed
qed

lemma zfill_pnat: "list_all isdigit s \<Longrightarrow> s \<noteq> [] \<Longrightarrow> zfill (length s) (digits_of (pnat s)) = s"
proof (induction s rule: rev_induct)
  case Nil
  then show ?case by simp
next
  case (snoc c s)
  from snoc.prems have dc: "isdigit c" and ds: "list_all isdigit s" by simp_all
  note v = dval_less [OF dc]
  show ?case
  proof (cases "s = []")
    case True
    then show ?thesis
      using v digit_chr_dval [OF dc] by (simp add: pnat_def digits_of.simps [of "dval c"] zfill_def)
  next
    case False
    show ?thesis
    proof (cases "pnat s = 0")
      case True
      from pnat_zero_replicate [OF ds True] have "s = replicate (length s) (CHR ''0'')" .
      then have "replicate (length s) (CHR ''0'') @ [c] = s @ [c]" by simp
      then show ?thesis
        using v True digit_chr_dval [OF dc] by (simp add: pnat_snoc digits_of_small zfill_def)
    next
      case nz: False
      from snoc.IH [OF ds False] have ih: "zfill (length s) (digits_of (pnat s)) = s" .
      from length_digits_of_pnat [OF ds False] have le: "length (digits_of (pnat s)) \<le> length s" .
      show ?thesis
        using v nz ih le digit_chr_dval [OF dc]
        by (simp add: pnat_snoc digits_of_step zfill_def)
    qed
  qed
qed

lemma fmt_d_py_int:
  assumes "list_all isdigit s" "length s = w" "0 < w"
  shows "fmt_d w (py_int s) = s"
proof -
  from assms have ne: "s \<noteq> []" by auto
  have "py_int s = int (pnat s)" by (simp add: py_int_def)
  then show ?thesis using zfill_pnat [OF assms(1) ne] assms(2) by (simp add: fmt_d_def)
qed

text \<open>Matching a pattern on a string of digits.\<close>

lemma digits_nonempty_ends:
  assumes "list_all isdigit a" "a \<noteq> []"
  shows "isdigit (hd a)" "isdigit (last a)"
proof -
  from assms have "hd a \<in> set a" "last a \<in> set a" by simp_all
  with assms(1) show "isdigit (hd a)" "isdigit (last a)" by (simp_all add: list_all_iff)
qed

lemma py_strip_id:
  assumes "s \<noteq> []" "\<not> isspace (hd s)" "\<not> isspace (last s)"
  shows "py_strip s = s"
proof -
  from assms(1,2) have a: "dropWhile isspace s = s" by (cases s) simp_all
  from assms(1,3) have b: "dropWhile isspace (rev s) = rev s"
    by (cases "rev s") (simp_all add: last_rev [symmetric] hd_rev)
  show ?thesis by (simp add: py_strip_def a b)
qed

lemma py_strip_digits:
  assumes "list_all isdigit a" "a \<noteq> []" "list_all isdigit b" "b \<noteq> []"
  shows "py_strip a = a" "py_strip (a @ b) = a @ b" "py_strip (a @ m @ b) = a @ m @ b"
proof -
  note ea = digits_nonempty_ends [OF assms(1,2)]
  note eb = digits_nonempty_ends [OF assms(3,4)]
  show "py_strip a = a"
    using assms(2) ea isdigit_not_special by (intro py_strip_id) auto
  show "py_strip (a @ b) = a @ b"
    using assms(2,4) ea eb isdigit_not_special by (intro py_strip_id) auto
  show "py_strip (a @ m @ b) = a @ m @ b"
    using assms(2,4) ea eb isdigit_not_special by (intro py_strip_id) auto
qed

text \<open>How each item of a pattern reads the front of a string.\<close>

lemma match_D:
  assumes "length a = n" "list_all isdigit a"
  shows "match_toks (D n # ts) (a @ r) = map_option ((#) a) (match_toks ts r)"
    and "match_toks (D n # ts) a = map_option ((#) a) (match_toks ts [])"
  using assms by simp_all

lemma match_D_fail:
  assumes "0 < n"
  shows "match_toks (D n # ts) [] = None"
    and "\<not> isdigit c \<Longrightarrow> match_toks (D n # ts) (c # r) = None"
  using assms by (auto simp: take_Cons')

lemma match_on_digits_fail:
  assumes "list_all isdigit a" "0 < length a"
  shows "match_toks (Dot # ts) (a @ r) = None" "match_toks (Dot # ts) a = None"
    and "match_toks (Tz # ts) (a @ r) = None" "match_toks (Tz # ts) a = None"
  using assms isdigit_not_special by (cases a; auto)+

lemma match_Frac:
  assumes "list_all isdigit f" "f \<noteq> []"
  shows "match_toks (Frac # ts) f = map_option ((#) f) (match_toks ts [])"
    and "\<not> isdigit c \<Longrightarrow> match_toks (Frac # ts) (f @ c # r) = map_option ((#) f) (match_toks ts (c # r))"
proof -
  from assms(1) have t: "takeWhile isdigit f = f" "dropWhile isdigit f = []"
    by (simp_all add: list_all_iff)
  show "match_toks (Frac # ts) f = map_option ((#) f) (match_toks ts [])"
    by (simp only: match_toks.simps t) (simp add: assms(2))
  assume c: "\<not> isdigit c"
  from assms(1) c have u: "takeWhile isdigit (f @ c # r) = f" "dropWhile isdigit (f @ c # r) = c # r"
    by (simp_all add: list_all_iff)
  show "match_toks (Frac # ts) (f @ c # r) = map_option ((#) f) (match_toks ts (c # r))"
    by (simp only: match_toks.simps u) (simp add: assms(2))
qed

lemma match_Tz:
  assumes "sg = CHR ''+'' \<or> sg = CHR ''-''" "length z = 4" "list_all isdigit z"
  shows "match_toks (Tz # ts) (sg # z) = map_option ((#) (sg # z)) (match_toks ts [])"
    and "match_toks (Dot # ts) (sg # r) = None"
    and "\<not> isdigit sg"
  using assms by (auto simp: isdigit_def code_def)

text \<open>The ten forms that \<open>HL7_TIMESTAMP_PATTERNS\<close> accepts, and what each becomes.\<close>

lemma match_end: "match_toks [] [] = Some []"
  by simp

lemma match_nil_fail:
  "match_toks (Dot # ts) [] = None" "match_toks (Tz # ts) [] = None" "match_toks (Frac # ts) [] = None"
  by simp_all

lemma match_Dot:
  "match_toks (Dot # ts) (CHR ''.'' # r) = match_toks ts r"
  "match_toks (Tz # ts) (CHR ''.'' # r) = None"
  by simp_all

lemmas match_rules = match_end match_nil_fail match_Dot match_D match_D_fail match_on_digits_fail match_Frac match_Tz
  HL7_TIMESTAMP_PATTERNS_def

lemmas convert_rules = convert_matched_timestamp_def grp_def date_check_def date_part_def checked_def
  iso_date_def fmt_d_py_int validate_date_def validate_time_def

lemma datetime_ok_ranges: "datetime_ok y m d \<Longrightarrow> 1 \<le> m \<and> m \<le> 12 \<and> 1 \<le> d \<and> d \<le> 31"
  by (auto simp: datetime_ok_def days_in_month_def split: if_splits)

lemma py_int_nonneg: "0 \<le> py_int s"
  by (simp add: py_int_def)

lemma fm_year:
  assumes "length y = 4" "list_all isdigit y"
  shows "first_match HL7_TIMESTAMP_PATTERNS y utc = Inr y"
  using assms by (simp add: match_rules convert_rules del: match_toks.simps)

lemma fm_month:
  assumes "length y = 4" "list_all isdigit y" "length mo = 2" "list_all isdigit mo"
  shows "first_match HL7_TIMESTAMP_PATTERNS (y @ mo) utc = Inr (y @ ''-'' @ mo)"
  using assms by (simp add: match_rules convert_rules del: match_toks.simps)

lemma fm_date:
  assumes "length y = 4" "list_all isdigit y" "length mo = 2" "list_all isdigit mo"
    "length d = 2" "list_all isdigit d"
    "datetime_ok (py_int y) (py_int mo) (py_int d)"
  shows "first_match HL7_TIMESTAMP_PATTERNS (y @ mo @ d) utc = Inr (y @ ''-'' @ mo @ ''-'' @ d)"
  using assms datetime_ok_ranges [OF assms(7)]
  by (simp add: match_rules convert_rules del: match_toks.simps)

lemma fm_hours:
  assumes "length y = 4" "list_all isdigit y" "length mo = 2" "list_all isdigit mo"
    "length d = 2" "list_all isdigit d" "length h = 2" "list_all isdigit h"
    "datetime_ok (py_int y) (py_int mo) (py_int d)" "py_int h \<le> 23"
  shows "first_match HL7_TIMESTAMP_PATTERNS (y @ mo @ d @ h) utc
           = Inr (y @ ''-'' @ mo @ ''-'' @ d @ ''T'' @ h @ '':00:00'' @ tz_suffix utc)"
  using assms datetime_ok_ranges [OF assms(9)] py_int_nonneg
  by (simp add: match_rules convert_rules del: match_toks.simps)


lemma fm_minutes:
  assumes "length y = 4" "list_all isdigit y" "length mo = 2" "list_all isdigit mo"
    "length d = 2" "list_all isdigit d" "length h = 2" "list_all isdigit h"
    "length mi = 2" "list_all isdigit mi"
    "datetime_ok (py_int y) (py_int mo) (py_int d)" "py_int h \<le> 23" "py_int mi \<le> 59"
  shows "first_match HL7_TIMESTAMP_PATTERNS (y @ mo @ d @ h @ mi) utc
           = Inr (y @ ''-'' @ mo @ ''-'' @ d @ ''T'' @ h @ '':'' @ mi @ '':00'' @ tz_suffix utc)"
  using assms datetime_ok_ranges [OF assms(11)] py_int_nonneg
  by (simp add: match_rules convert_rules del: match_toks.simps)

lemma fm_full:
  assumes "length y = 4" "list_all isdigit y" "length mo = 2" "list_all isdigit mo"
    "length d = 2" "list_all isdigit d" "length h = 2" "list_all isdigit h"
    "length mi = 2" "list_all isdigit mi" "length s = 2" "list_all isdigit s"
    "datetime_ok (py_int y) (py_int mo) (py_int d)" "py_int h \<le> 23" "py_int mi \<le> 59" "py_int s \<le> 59"
  shows "first_match HL7_TIMESTAMP_PATTERNS (y @ mo @ d @ h @ mi @ s) utc
           = Inr (y @ ''-'' @ mo @ ''-'' @ d @ ''T'' @ h @ '':'' @ mi @ '':'' @ s @ tz_suffix utc)"
  using assms datetime_ok_ranges [OF assms(13)] py_int_nonneg
  by (simp add: match_rules convert_rules del: match_toks.simps)

lemma fm_full_fraction:
  assumes "length y = 4" "list_all isdigit y" "length mo = 2" "list_all isdigit mo"
    "length d = 2" "list_all isdigit d" "length h = 2" "list_all isdigit h"
    "length mi = 2" "list_all isdigit mi" "length s = 2" "list_all isdigit s"
    "datetime_ok (py_int y) (py_int mo) (py_int d)" "py_int h \<le> 23" "py_int mi \<le> 59" "py_int s \<le> 59"
    "f \<noteq> []" "list_all isdigit f"
  shows "first_match HL7_TIMESTAMP_PATTERNS (y @ mo @ d @ h @ mi @ s @ CHR ''.'' # f) utc
           = Inr (y @ ''-'' @ mo @ ''-'' @ d @ ''T'' @ h @ '':'' @ mi @ '':'' @ s @ ''.''
                    @ ljust0 3 (take 3 f) @ tz_suffix utc)"
  using assms datetime_ok_ranges [OF assms(13)] py_int_nonneg
  by (simp add: match_rules convert_rules del: match_toks.simps)

lemma fm_minutes_tz:
  assumes "length y = 4" "list_all isdigit y" "length mo = 2" "list_all isdigit mo"
    "length d = 2" "list_all isdigit d" "length h = 2" "list_all isdigit h"
    "length mi = 2" "list_all isdigit mi"
    "datetime_ok (py_int y) (py_int mo) (py_int d)" "py_int h \<le> 23" "py_int mi \<le> 59"
    "sg = CHR ''+'' \<or> sg = CHR ''-''" "length z = 4" "list_all isdigit z"
  shows "first_match HL7_TIMESTAMP_PATTERNS (y @ mo @ d @ h @ mi @ sg # z) utc
           = Inr (y @ ''-'' @ mo @ ''-'' @ d @ ''T'' @ h @ '':'' @ mi @ '':00'' @ convert_tz_offset (sg # z))"
  using assms datetime_ok_ranges [OF assms(11)] py_int_nonneg match_Tz(3) [OF assms(14-16)]
  by (simp add: match_rules convert_rules del: match_toks.simps)

lemma fm_full_tz:
  assumes "length y = 4" "list_all isdigit y" "length mo = 2" "list_all isdigit mo"
    "length d = 2" "list_all isdigit d" "length h = 2" "list_all isdigit h"
    "length mi = 2" "list_all isdigit mi" "length s = 2" "list_all isdigit s"
    "datetime_ok (py_int y) (py_int mo) (py_int d)" "py_int h \<le> 23" "py_int mi \<le> 59" "py_int s \<le> 59"
    "sg = CHR ''+'' \<or> sg = CHR ''-''" "length z = 4" "list_all isdigit z"
  shows "first_match HL7_TIMESTAMP_PATTERNS (y @ mo @ d @ h @ mi @ s @ sg # z) utc
           = Inr (y @ ''-'' @ mo @ ''-'' @ d @ ''T'' @ h @ '':'' @ mi @ '':'' @ s @ convert_tz_offset (sg # z))"
  using assms datetime_ok_ranges [OF assms(13)] py_int_nonneg match_Tz(3) [OF assms(17-19)]
  by (simp add: match_rules convert_rules del: match_toks.simps)

lemma fm_full_fraction_tz:
  assumes "length y = 4" "list_all isdigit y" "length mo = 2" "list_all isdigit mo"
    "length d = 2" "list_all isdigit d" "length h = 2" "list_all isdigit h"
    "length mi = 2" "list_all isdigit mi" "length s = 2" "list_all isdigit s"
    "datetime_ok (py_int y) (py_int mo) (py_int d)" "py_int h \<le> 23" "py_int mi \<le> 59" "py_int s \<le> 59"
    "f \<noteq> []" "list_all isdigit f"
    "sg = CHR ''+'' \<or> sg = CHR ''-''" "length z = 4" "list_all isdigit z"
  shows "first_match HL7_TIMESTAMP_PATTERNS (y @ mo @ d @ h @ mi @ s @ CHR ''.'' # f @ sg # z) utc
           = Inr (y @ ''-'' @ mo @ ''-'' @ d @ ''T'' @ h @ '':'' @ mi @ '':'' @ s @ ''.''
                    @ ljust0 3 (take 3 f) @ convert_tz_offset (sg # z))"
  using assms datetime_ok_ranges [OF assms(13)] py_int_nonneg match_Tz(3) [OF assms(19-21)]
  by (simp add: match_rules convert_rules del: match_toks.simps)

lemma parse_via_first_match:
  assumes "v \<noteq> []" "py_strip v = v"
  shows "parse_hl7_timestamp v utc = map_sum id Some (first_match HL7_TIMESTAMP_PATTERNS v utc)"
  using assms by (simp add: parse_hl7_timestamp_def)

lemma strip_y:
  assumes "length y = 4" "list_all isdigit y"
  shows "y \<noteq> [] \<and> py_strip y = y"
proof -
  from assms(1) have y: "y \<noteq> []" by auto
  with py_strip_digits(1) [OF assms(2) y assms(2) y] show ?thesis by simp
qed

lemma strip_yb:
  assumes "length y = 4" "list_all isdigit y" "0 < length b" "list_all isdigit b"
  shows "py_strip (y @ b) = y @ b \<and> py_strip (y @ m @ b) = y @ m @ b"
proof -
  from assms(1) have y: "y \<noteq> []" by auto
  from assms(3) have b: "b \<noteq> []" by auto
  show ?thesis using py_strip_digits [OF assms(2) y assms(4) b] by simp
qed

text \<open>
  C1, as the code has it. For every input of digits at one of the six precision levels the
  normalizer returns exactly: \<open>YYYY\<close> for a year; \<open>YYYY-MM\<close> for year and month; \<open>YYYY-MM-DD\<close>
  for a valid date; the date and \<open>THH:00:00\<close> for a valid date and hour; the date and
  \<open>THH:MM:00\<close> for a valid date, hour and minute; and \<open>YYYY-MM-DDTHH:MM:SS\<close> for a valid
  date and time. The three levels that carry a time of day are followed by \<open>Z\<close> when the
  caller requests the UTC assumption (the default of \<open>parse_hl7_timestamp\<close>), and by nothing
  otherwise; the three levels without a time never carry a suffix.
\<close>

theorem timestamp_granularity:
  assumes "length y = 4" "list_all isdigit y" "length mo = 2" "list_all isdigit mo"
    "length d = 2" "list_all isdigit d" "length h = 2" "list_all isdigit h"
    "length mi = 2" "list_all isdigit mi" "length s = 2" "list_all isdigit s"
  shows "parse_hl7_timestamp y assume_utc = Inr (Some y)
     \<and> parse_hl7_timestamp (y @ mo) assume_utc = Inr (Some (y @ ''-'' @ mo))
     \<and> (datetime_ok (py_int y) (py_int mo) (py_int d) \<longrightarrow>
          parse_hl7_timestamp (y @ mo @ d) assume_utc = Inr (Some (y @ ''-'' @ mo @ ''-'' @ d))
          \<and> (py_int h \<le> 23 \<longrightarrow>
               parse_hl7_timestamp (y @ mo @ d @ h) assume_utc
                 = Inr (Some (y @ ''-'' @ mo @ ''-'' @ d @ ''T'' @ h @ '':00:00''
                          @ (if assume_utc then ''Z'' else [])))
               \<and> (py_int mi \<le> 59 \<longrightarrow>
                    parse_hl7_timestamp (y @ mo @ d @ h @ mi) assume_utc
                      = Inr (Some (y @ ''-'' @ mo @ ''-'' @ d @ ''T'' @ h @ '':'' @ mi @ '':00''
                               @ (if assume_utc then ''Z'' else [])))
                    \<and> (py_int s \<le> 59 \<longrightarrow>
                         parse_hl7_timestamp (y @ mo @ d @ h @ mi @ s) assume_utc
                           = Inr (Some (y @ ''-'' @ mo @ ''-'' @ d @ ''T'' @ h @ '':'' @ mi @ '':'' @ s
                                    @ (if assume_utc then ''Z'' else [])))))))"
proof -
  have p1: "parse_hl7_timestamp y assume_utc = Inr (Some y)"
    using strip_y [OF assms(1,2)]
    by (simp add: parse_via_first_match fm_year [OF assms(1,2)])
  have p2: "parse_hl7_timestamp (y @ mo) assume_utc = Inr (Some (y @ ''-'' @ mo))"
    using strip_y [OF assms(1,2)] strip_yb [OF assms(1,2), where b = mo] assms(3,4)
    by (simp add: parse_via_first_match fm_month [OF assms(1-4)])
  have p3: "parse_hl7_timestamp (y @ mo @ d) assume_utc = Inr (Some (y @ ''-'' @ mo @ ''-'' @ d))"
    if v: "datetime_ok (py_int y) (py_int mo) (py_int d)"
    using strip_y [OF assms(1,2)] strip_yb [OF assms(1,2), where b = d and m = "mo"] assms(5,6)
    by (simp add: parse_via_first_match fm_date [OF assms(1-6) v])
  have p4: "parse_hl7_timestamp (y @ mo @ d @ h) assume_utc
                 = Inr (Some (y @ ''-'' @ mo @ ''-'' @ d @ ''T'' @ h @ '':00:00''
                          @ (if assume_utc then ''Z'' else [])))"
    if v: "datetime_ok (py_int y) (py_int mo) (py_int d)" "py_int h \<le> 23"
    using strip_y [OF assms(1,2)] strip_yb [OF assms(1,2), where b = h and m = "mo @ d"] assms(7,8)
    by (simp add: parse_via_first_match fm_hours [OF assms(1-8) v] tz_suffix_def)
  have p5: "parse_hl7_timestamp (y @ mo @ d @ h @ mi) assume_utc
                      = Inr (Some (y @ ''-'' @ mo @ ''-'' @ d @ ''T'' @ h @ '':'' @ mi @ '':00''
                               @ (if assume_utc then ''Z'' else [])))"
    if v: "datetime_ok (py_int y) (py_int mo) (py_int d)" "py_int h \<le> 23" "py_int mi \<le> 59"
    using strip_y [OF assms(1,2)] strip_yb [OF assms(1,2), where b = mi and m = "mo @ d @ h"] assms(9,10)
    by (simp add: parse_via_first_match fm_minutes [OF assms(1-10) v] tz_suffix_def)
  have p6: "parse_hl7_timestamp (y @ mo @ d @ h @ mi @ s) assume_utc
                           = Inr (Some (y @ ''-'' @ mo @ ''-'' @ d @ ''T'' @ h @ '':'' @ mi @ '':'' @ s
                                    @ (if assume_utc then ''Z'' else [])))"
    if v: "datetime_ok (py_int y) (py_int mo) (py_int d)" "py_int h \<le> 23" "py_int mi \<le> 59"
      "py_int s \<le> 59"
    using strip_y [OF assms(1,2)] strip_yb [OF assms(1,2), where b = s and m = "mo @ d @ h @ mi"] assms(11,12)
    by (simp add: parse_via_first_match fm_full [OF assms(1-12) v] tz_suffix_def)
  from p1 p2 p3 p4 p5 p6 show ?thesis by blast
qed

theorem timestamp_granularity_witness:
  "length ''2025'' = 4 \<and> list_all isdigit ''2025''
   \<and> length ''05'' = 2 \<and> list_all isdigit ''05''
   \<and> length ''02'' = 2 \<and> list_all isdigit ''02''
   \<and> length ''13'' = 2 \<and> list_all isdigit ''13''
   \<and> length ''45'' = 2 \<and> list_all isdigit ''45''
   \<and> length ''30'' = 2 \<and> list_all isdigit ''30''
   \<and> datetime_ok (py_int ''2025'') (py_int ''05'') (py_int ''02'')
   \<and> py_int ''13'' \<le> 23 \<and> py_int ''45'' \<le> 59 \<and> py_int ''30'' \<le> 59
   \<and> parse_hl7_timestamp ''2025'' True = Inr (Some ''2025'')
   \<and> parse_hl7_timestamp ''202505'' True = Inr (Some ''2025-05'')
   \<and> parse_hl7_timestamp ''20250502'' True = Inr (Some ''2025-05-02'')
   \<and> parse_hl7_timestamp ''2025050213'' True = Inr (Some ''2025-05-02T13:00:00Z'')
   \<and> parse_hl7_timestamp ''202505021345'' True = Inr (Some ''2025-05-02T13:45:00Z'')
   \<and> parse_hl7_timestamp ''20250502134530'' True = Inr (Some ''2025-05-02T13:45:30Z'')"
proof -
  have l1: "length ''2025'' = 4" and d1: "list_all isdigit ''2025''"
    and l2: "length ''05'' = 2" and d2: "list_all isdigit ''05''"
    and l3: "length ''02'' = 2" and d3: "list_all isdigit ''02''"
    and l4: "length ''13'' = 2" and d4: "list_all isdigit ''13''"
    and l5: "length ''45'' = 2" and d5: "list_all isdigit ''45''"
    and l6: "length ''30'' = 2" and d6: "list_all isdigit ''30''"
    by code_simp+
  have ok: "datetime_ok (py_int ''2025'') (py_int ''05'') (py_int ''02'')" by code_simp
  have hh: "py_int ''13'' \<le> 23" by code_simp
  have hm: "py_int ''45'' \<le> 59" by code_simp
  have hs: "py_int ''30'' \<le> 59" by code_simp
  note t = timestamp_granularity [OF l1 d1 l2 d2 l3 d3 l4 d4 l5 d5 l6 d6, of True]
  note t1 = conjunct1 [OF t]
  note t2 = conjunct1 [OF conjunct2 [OF t]]
  note r3 = mp [OF conjunct2 [OF conjunct2 [OF t]] ok]
  note t3 = conjunct1 [OF r3]
  note r4 = mp [OF conjunct2 [OF r3] hh]
  note t4 = conjunct1 [OF r4]
  note r5 = mp [OF conjunct2 [OF r4] hm]
  note t5 = conjunct1 [OF r5]
  note t6 = mp [OF conjunct2 [OF r5] hs]
  have f1: "parse_hl7_timestamp ''2025'' True = Inr (Some ''2025'')" using t1 by simp
  have f2: "parse_hl7_timestamp ''202505'' True = Inr (Some ''2025-05'')" using t2 by simp
  have f3: "parse_hl7_timestamp ''20250502'' True = Inr (Some ''2025-05-02'')" using t3 by simp
  have f4: "parse_hl7_timestamp ''2025050213'' True = Inr (Some ''2025-05-02T13:00:00Z'')"
    using t4 by simp
  have f5: "parse_hl7_timestamp ''202505021345'' True = Inr (Some ''2025-05-02T13:45:00Z'')"
    using t5 by simp
  have f6: "parse_hl7_timestamp ''20250502134530'' True = Inr (Some ''2025-05-02T13:45:30Z'')"
    using t6 by simp
  show ?thesis
    apply (intro conjI)
    apply (rule l1 d1 l2 d2 l3 d3 l4 d4 l5 d5 l6 d6 ok hh hm hs f1 f2 f3 f4 f5 f6)+
    done
qed

text \<open>
  C1 as stated fails with the default \<open>assume_utc=True\<close>: the date and hour \<open>2025050213\<close>
  gives \<open>2025-05-02T13:00:00Z\<close>, one character more than the date and \<open>THH:00:00\<close>; likewise
  at the minute and at the second.
\<close>

theorem timestamp_utc_suffix_counterexample:
  "parse_hl7_timestamp ''2025050213'' True = Inr (Some ''2025-05-02T13:00:00Z'')
   \<and> parse_hl7_timestamp ''2025050213'' True \<noteq> Inr (Some ''2025-05-02T13:00:00'')
   \<and> parse_hl7_timestamp ''202505021345'' True = Inr (Some ''2025-05-02T13:45:00Z'')
   \<and> parse_hl7_timestamp ''20250502134530'' True = Inr (Some ''2025-05-02T13:45:30Z'')"
  by code_simp

lemma match_end_fail:
  "match_toks [] (CHR ''.'' # r) = None"
  "list_all isdigit a \<Longrightarrow> 0 < length a \<Longrightarrow> match_toks [] (a @ r) = None"
proof -
  show "match_toks [] (CHR ''.'' # r) = None" by simp
  assume a: "list_all isdigit a" "0 < length a"
  then obtain c cs where c: "a = c # cs" by (cases a) auto
  with a have "isdigit c" by simp
  then have "c \<noteq> CHR 0x0A" by (auto simp: isdigit_def code_def)
  with c show "match_toks [] (a @ r) = None" by simp
qed

lemma dot_not_digit: "\<not> isdigit (CHR ''.'')"
  by (simp add: isdigit_def code_def)

lemma fm_fraction_rejected:
  assumes "length y = 4" "list_all isdigit y" "length mo = 2" "list_all isdigit mo"
    "length d = 2" "list_all isdigit d" "length h = 2" "list_all isdigit h"
    "length mi = 2" "list_all isdigit mi" "length s = 2" "list_all isdigit s" "f \<noteq> []" "list_all isdigit f"
  shows "first_match HL7_TIMESTAMP_PATTERNS (y @ CHR ''.'' # f) utc
           = Inl (InvalidTimestampError (y @ CHR ''.'' # f) NoKnownFormat)"
    and "first_match HL7_TIMESTAMP_PATTERNS (y @ mo @ CHR ''.'' # f) utc
           = Inl (InvalidTimestampError (y @ mo @ CHR ''.'' # f) NoKnownFormat)"
    and "first_match HL7_TIMESTAMP_PATTERNS (y @ mo @ d @ CHR ''.'' # f) utc
           = Inl (InvalidTimestampError (y @ mo @ d @ CHR ''.'' # f) NoKnownFormat)"
    and "first_match HL7_TIMESTAMP_PATTERNS (y @ mo @ d @ h @ CHR ''.'' # f) utc
           = Inl (InvalidTimestampError (y @ mo @ d @ h @ CHR ''.'' # f) NoKnownFormat)"
    and "first_match HL7_TIMESTAMP_PATTERNS (y @ mo @ d @ h @ mi @ CHR ''.'' # f) utc
           = Inl (InvalidTimestampError (y @ mo @ d @ h @ mi @ CHR ''.'' # f) NoKnownFormat)"
  using assms dot_not_digit
  by (simp_all add: match_rules match_end_fail del: match_toks.simps)

text \<open>
  C2, as the code has it. The normalizer accepts every valid digit string of length 4, 6,
  8, 10, 12 or 14; after 14 digits also a decimal point and one or more digits of a
  fraction; and a \<open>+HHMM\<close> or \<open>-HHMM\<close> offset after 12 digits, after 14 digits, and after
  the fraction of 14 digits. A decimal point and a fraction after 4, 6, 8, 10 or 12 digits
  is refused with \<open>InvalidTimestampError\<close>: no pattern of \<open>HL7_TIMESTAMP_PATTERNS\<close> has a
  fraction but after the seconds.
\<close>

theorem timestamp_accepted:
  assumes "length y = 4" "list_all isdigit y" "length mo = 2" "list_all isdigit mo"
    "length d = 2" "list_all isdigit d" "length h = 2" "list_all isdigit h"
    "length mi = 2" "list_all isdigit mi" "length s = 2" "list_all isdigit s"
    "f \<noteq> []" "list_all isdigit f"
    "sg = CHR ''+'' \<or> sg = CHR ''-''" "length z = 4" "list_all isdigit z"
  shows "(\<exists>r. parse_hl7_timestamp y utc = Inr (Some r))
     \<and> (\<exists>r. parse_hl7_timestamp (y @ mo) utc = Inr (Some r))
     \<and> (datetime_ok (py_int y) (py_int mo) (py_int d) \<longrightarrow>
          (\<exists>r. parse_hl7_timestamp (y @ mo @ d) utc = Inr (Some r))
          \<and> (py_int h \<le> 23 \<longrightarrow>
               (\<exists>r. parse_hl7_timestamp (y @ mo @ d @ h) utc = Inr (Some r))
               \<and> (py_int mi \<le> 59 \<longrightarrow>
                    (\<exists>r. parse_hl7_timestamp (y @ mo @ d @ h @ mi) utc = Inr (Some r))
                    \<and> (\<exists>r. parse_hl7_timestamp (y @ mo @ d @ h @ mi @ sg # z) utc = Inr (Some r))
                    \<and> (py_int s \<le> 59 \<longrightarrow>
                         (\<exists>r. parse_hl7_timestamp (y @ mo @ d @ h @ mi @ s) utc = Inr (Some r))
                         \<and> (\<exists>r. parse_hl7_timestamp (y @ mo @ d @ h @ mi @ s @ CHR ''.'' # f) utc = Inr (Some r))
                         \<and> (\<exists>r. parse_hl7_timestamp (y @ mo @ d @ h @ mi @ s @ sg # z) utc = Inr (Some r))
                         \<and> (\<exists>r. parse_hl7_timestamp (y @ mo @ d @ h @ mi @ s @ CHR ''.'' # f @ sg # z) utc
                                 = Inr (Some r))))))
     \<and> parse_hl7_timestamp (y @ CHR ''.'' # f) utc
          = Inl (InvalidTimestampError (y @ CHR ''.'' # f) NoKnownFormat)
     \<and> parse_hl7_timestamp (y @ mo @ CHR ''.'' # f) utc
          = Inl (InvalidTimestampError (y @ mo @ CHR ''.'' # f) NoKnownFormat)
     \<and> parse_hl7_timestamp (y @ mo @ d @ CHR ''.'' # f) utc
          = Inl (InvalidTimestampError (y @ mo @ d @ CHR ''.'' # f) NoKnownFormat)
     \<and> parse_hl7_timestamp (y @ mo @ d @ h @ CHR ''.'' # f) utc
          = Inl (InvalidTimestampError (y @ mo @ d @ h @ CHR ''.'' # f) NoKnownFormat)
     \<and> parse_hl7_timestamp (y @ mo @ d @ h @ mi @ CHR ''.'' # f) utc
          = Inl (InvalidTimestampError (y @ mo @ d @ h @ mi @ CHR ''.'' # f) NoKnownFormat)"
proof -
  note sy = strip_y [OF assms(1,2)]
  have lf: "0 < length f" using assms(13) by simp
  have lz: "0 < length z" using assms(16) by simp
  have a1: "\<exists>r. parse_hl7_timestamp y utc = Inr (Some r)"
    using sy by (simp add: parse_via_first_match fm_year [OF assms(1,2)])
  have a2: "\<exists>r. parse_hl7_timestamp (y @ mo) utc = Inr (Some r)"
    using sy strip_yb [OF assms(1,2), where b = mo] assms(3,4)
    by (simp add: parse_via_first_match fm_month [OF assms(1-4)])
  have a3: "\<exists>r. parse_hl7_timestamp (y @ mo @ d) utc = Inr (Some r)"
    if v: "datetime_ok (py_int y) (py_int mo) (py_int d)"
    using sy strip_yb [OF assms(1,2), where b = d and m = mo] assms(5,6)
    by (simp add: parse_via_first_match fm_date [OF assms(1-6) v])
  have a4: "\<exists>r. parse_hl7_timestamp (y @ mo @ d @ h) utc = Inr (Some r)"
    if v: "datetime_ok (py_int y) (py_int mo) (py_int d)" "py_int h \<le> 23"
    using sy strip_yb [OF assms(1,2), where b = h and m = "mo @ d"] assms(7,8)
    by (simp add: parse_via_first_match fm_hours [OF assms(1-8) v])
  have a5: "\<exists>r. parse_hl7_timestamp (y @ mo @ d @ h @ mi) utc = Inr (Some r)"
    if v: "datetime_ok (py_int y) (py_int mo) (py_int d)" "py_int h \<le> 23" "py_int mi \<le> 59"
    using sy strip_yb [OF assms(1,2), where b = mi and m = "mo @ d @ h"] assms(9,10)
    by (simp add: parse_via_first_match fm_minutes [OF assms(1-10) v])
  have a6: "\<exists>r. parse_hl7_timestamp (y @ mo @ d @ h @ mi @ sg # z) utc = Inr (Some r)"
    if v: "datetime_ok (py_int y) (py_int mo) (py_int d)" "py_int h \<le> 23" "py_int mi \<le> 59"
    using sy strip_yb [OF assms(1,2) lz assms(17), where m = "mo @ d @ h @ mi @ [sg]"]
    by (simp add: parse_via_first_match fm_minutes_tz [OF assms(1-10) v assms(15-17)])
  have a7: "\<exists>r. parse_hl7_timestamp (y @ mo @ d @ h @ mi @ s) utc = Inr (Some r)"
    if v: "datetime_ok (py_int y) (py_int mo) (py_int d)" "py_int h \<le> 23" "py_int mi \<le> 59"
      "py_int s \<le> 59"
    using sy strip_yb [OF assms(1,2), where b = s and m = "mo @ d @ h @ mi"] assms(11,12)
    by (simp add: parse_via_first_match fm_full [OF assms(1-12) v])
  have a8: "\<exists>r. parse_hl7_timestamp (y @ mo @ d @ h @ mi @ s @ CHR ''.'' # f) utc = Inr (Some r)"
    if v: "datetime_ok (py_int y) (py_int mo) (py_int d)" "py_int h \<le> 23" "py_int mi \<le> 59"
      "py_int s \<le> 59"
    using sy strip_yb [OF assms(1,2) lf assms(14), where m = "mo @ d @ h @ mi @ s @ ''.''"]
    by (simp add: parse_via_first_match fm_full_fraction [OF assms(1-12) v assms(13,14)])
  have a9: "\<exists>r. parse_hl7_timestamp (y @ mo @ d @ h @ mi @ s @ sg # z) utc = Inr (Some r)"
    if v: "datetime_ok (py_int y) (py_int mo) (py_int d)" "py_int h \<le> 23" "py_int mi \<le> 59"
      "py_int s \<le> 59"
    using sy strip_yb [OF assms(1,2) lz assms(17), where m = "mo @ d @ h @ mi @ s @ [sg]"]
    by (simp add: parse_via_first_match fm_full_tz [OF assms(1-12) v assms(15-17)])
  have a10: "\<exists>r. parse_hl7_timestamp (y @ mo @ d @ h @ mi @ s @ CHR ''.'' # f @ sg # z) utc = Inr (Some r)"
    if v: "datetime_ok (py_int y) (py_int mo) (py_int d)" "py_int h \<le> 23" "py_int mi \<le> 59"
      "py_int s \<le> 59"
    using sy strip_yb [OF assms(1,2) lz assms(17), where m = "mo @ d @ h @ mi @ s @ ''.'' @ f @ [sg]"]
    by (simp add: parse_via_first_match fm_full_fraction_tz [OF assms(1-12) v assms(13-17)])
  note rj = fm_fraction_rejected [OF assms(1-14), of utc]
  have r1: "parse_hl7_timestamp (y @ CHR ''.'' # f) utc
          = Inl (InvalidTimestampError (y @ CHR ''.'' # f) NoKnownFormat)"
    using sy strip_yb [OF assms(1,2) lf assms(14), where m = "''.''"]
    by (simp add: parse_via_first_match rj(1))
  have r2: "parse_hl7_timestamp (y @ mo @ CHR ''.'' # f) utc
          = Inl (InvalidTimestampError (y @ mo @ CHR ''.'' # f) NoKnownFormat)"
    using sy strip_yb [OF assms(1,2) lf assms(14), where m = "mo @ ''.''"]
    by (simp add: parse_via_first_match rj(2))
  have r3: "parse_hl7_timestamp (y @ mo @ d @ CHR ''.'' # f) utc
          = Inl (InvalidTimestampError (y @ mo @ d @ CHR ''.'' # f) NoKnownFormat)"
    using sy strip_yb [OF assms(1,2) lf assms(14), where m = "mo @ d @ ''.''"]
    by (simp add: parse_via_first_match rj(3))
  have r4: "parse_hl7_timestamp (y @ mo @ d @ h @ CHR ''.'' # f) utc
          = Inl (InvalidTimestampError (y @ mo @ d @ h @ CHR ''.'' # f) NoKnownFormat)"
    using sy strip_yb [OF assms(1,2) lf assms(14), where m = "mo @ d @ h @ ''.''"]
    by (simp add: parse_via_first_match rj(4))
  have r5: "parse_hl7_timestamp (y @ mo @ d @ h @ mi @ CHR ''.'' # f) utc
          = Inl (InvalidTimestampError (y @ mo @ d @ h @ mi @ CHR ''.'' # f) NoKnownFormat)"
    using sy strip_yb [OF assms(1,2) lf assms(14), where m = "mo @ d @ h @ mi @ ''.''"]
    by (simp add: parse_via_first_match rj(5))
  from a1 a2 a3 a4 a5 a6 a7 a8 a9 a10 r1 r2 r3 r4 r5 show ?thesis by blast
qed

theorem timestamp_accepted_witness:
  "length ''2025'' = 4 \<and> list_all isdigit ''2025''
   \<and> length ''05'' = 2 \<and> list_all isdigit ''05''
   \<and> length ''02'' = 2 \<and> list_all isdigit ''02''
   \<and> length ''13'' = 2 \<and> list_all isdigit ''13''
   \<and> length ''45'' = 2 \<and> list_all isdigit ''45''
   \<and> length ''30'' = 2 \<and> list_all isdigit ''30''
   \<and> ''123456'' \<noteq> [] \<and> list_all isdigit ''123456''
   \<and> length ''0530'' = 4 \<and> list_all isdigit ''0530''
   \<and> datetime_ok (py_int ''2025'') (py_int ''05'') (py_int ''02'')
   \<and> py_int ''13'' \<le> 23 \<and> py_int ''45'' \<le> 59 \<and> py_int ''30'' \<le> 59
   \<and> (\<exists>r. parse_hl7_timestamp ''20250502134530.123456-0530'' True = Inr (Some r))
   \<and> (\<exists>r. parse_hl7_timestamp ''202505021345-0530'' True = Inr (Some r))
   \<and> parse_hl7_timestamp ''20250502.123456'' True
        = Inl (InvalidTimestampError ''20250502.123456'' NoKnownFormat)"
proof -
  have l1: "length ''2025'' = 4" and d1: "list_all isdigit ''2025''"
    and l2: "length ''05'' = 2" and d2: "list_all isdigit ''05''"
    and l3: "length ''02'' = 2" and d3: "list_all isdigit ''02''"
    and l4: "length ''13'' = 2" and d4: "list_all isdigit ''13''"
    and l5: "length ''45'' = 2" and d5: "list_all isdigit ''45''"
    and l6: "length ''30'' = 2" and d6: "list_all isdigit ''30''"
    and nf: "''123456'' \<noteq> []" and df: "list_all isdigit ''123456''"
    and lz: "length ''0530'' = 4" and dz: "list_all isdigit ''0530''"
    by code_simp+
  have sg: "CHR ''-'' = CHR ''+'' \<or> CHR ''-'' = CHR ''-''" by simp
  have ok: "datetime_ok (py_int ''2025'') (py_int ''05'') (py_int ''02'')" by code_simp
  have hh: "py_int ''13'' \<le> 23" by code_simp
  have hm: "py_int ''45'' \<le> 59" by code_simp
  have hs: "py_int ''30'' \<le> 59" by code_simp
  note t = timestamp_accepted [OF l1 d1 l2 d2 l3 d3 l4 d4 l5 d5 l6 d6 nf df sg lz dz, of True]
  note c3 = conjunct2 [OF conjunct2 [OF t]]
  note r3 = mp [OF conjunct1 [OF c3] ok]
  note r4 = mp [OF conjunct2 [OF r3] hh]
  note r5 = mp [OF conjunct2 [OF r4] hm]
  note t6 = conjunct1 [OF conjunct2 [OF r5]]
  note r6 = mp [OF conjunct2 [OF conjunct2 [OF r5]] hs]
  note t10 = conjunct2 [OF conjunct2 [OF conjunct2 [OF r6]]]
  note j3 = conjunct1 [OF conjunct2 [OF conjunct2 [OF conjunct2 [OF c3]]]]
  have f10: "\<exists>r. parse_hl7_timestamp ''20250502134530.123456-0530'' True = Inr (Some r)"
    using t10 by simp
  have f6: "\<exists>r. parse_hl7_timestamp ''202505021345-0530'' True = Inr (Some r)"
    using t6 by simp
  have g3: "parse_hl7_timestamp ''20250502.123456'' True
        = Inl (InvalidTimestampError ''20250502.123456'' NoKnownFormat)"
    using j3 by simp
  show ?thesis
    apply (intro conjI)
    apply (rule l1 d1 l2 d2 l3 d3 l4 d4 l5 d5 l6 d6 nf df lz dz ok hh hm hs f10 f6 g3)+
    done
qed

text \<open>
  C2 as stated fails on a fraction before the seconds: the date \<open>20250502\<close> followed by
  \<open>.5\<close> raises \<open>InvalidTimestampError\<close>, and so does the minute \<open>202505021345\<close> followed by
  \<open>.5\<close>.
\<close>

theorem timestamp_fraction_counterexample:
  "parse_hl7_timestamp ''20250502.5'' True
     = Inl (InvalidTimestampError ''20250502.5'' NoKnownFormat)
   \<and> parse_hl7_timestamp ''202505021345.5'' True
     = Inl (InvalidTimestampError ''202505021345.5'' NoKnownFormat)"
  by code_simp

end
